theory Spec2Isabelle
  imports Complex_Main "HOL-Library.Monad_Syntax"
begin

section \<open>Numbers and the three.js value types\<close>

text \<open>
  JavaScript numbers are modelled as \<^typ>\<open>real\<close>: thresholds, clamps and the
  integration formulas are read as exact arithmetic. The helpers below are the
  library functions the sources call, written out: \<open>Math.min\<close>/\<open>Math.max\<close> are
  \<^const>\<open>min\<close>/\<^const>\<open>max\<close>, \<open>THREE.MathUtils.clamp(v, lo, hi)\<close> is
  \<open>Math.max(lo, Math.min(hi, v))\<close>, \<open>THREE.MathUtils.lerp(x, y, t)\<close> is
  \<open>(1 - t) * x + t * y\<close>, and the remainder operator \<open>%\<close> truncates its
  quotient towards zero, so its result has the sign of the dividend.
\<close>

definition clamp :: "real \<Rightarrow> real \<Rightarrow> real \<Rightarrow> real" where
  "clamp v lo hi = max lo (min hi v)"

definition lerp :: "real \<Rightarrow> real \<Rightarrow> real \<Rightarrow> real" where
  "lerp x y t = (1 - t) * x + t * y"

definition trunc :: "real \<Rightarrow> int" where
  "trunc r = (if 0 \<le> r then \<lfloor>r\<rfloor> else \<lceil>r\<rceil>)"

definition jsRem :: "real \<Rightarrow> real \<Rightarrow> real" where
  "jsRem a b = a - b * of_int (trunc (a / b))"

definition atan2 :: "real \<Rightarrow> real \<Rightarrow> real" where
  "atan2 y x =
     (if 0 < x then arctan (y / x)
      else if x < 0 \<and> 0 \<le> y then arctan (y / x) + pi
      else if x < 0 then arctan (y / x) - pi
      else if 0 < y then pi / 2
      else if y < 0 then - (pi / 2)
      else 0)"

record Vector3 =
  vx :: real
  vy :: real
  vz :: real

definition vec3 :: "real \<Rightarrow> real \<Rightarrow> real \<Rightarrow> Vector3" where
  "vec3 x y z = \<lparr>vx = x, vy = y, vz = z\<rparr>"

definition add :: "Vector3 \<Rightarrow> Vector3 \<Rightarrow> Vector3" where
  "add a b = vec3 (vx a + vx b) (vy a + vy b) (vz a + vz b)"

definition subVectors :: "Vector3 \<Rightarrow> Vector3 \<Rightarrow> Vector3" where
  "subVectors a b = vec3 (vx a - vx b) (vy a - vy b) (vz a - vz b)"

definition multiplyScalar :: "Vector3 \<Rightarrow> real \<Rightarrow> Vector3" where
  "multiplyScalar a s = vec3 (vx a * s) (vy a * s) (vz a * s)"

definition divideScalar :: "Vector3 \<Rightarrow> real \<Rightarrow> Vector3" where
  "divideScalar a s = multiplyScalar a (1 / s)"

definition addScaledVector :: "Vector3 \<Rightarrow> Vector3 \<Rightarrow> real \<Rightarrow> Vector3" where
  "addScaledVector a v s = vec3 (vx a + vx v * s) (vy a + vy v * s) (vz a + vz v * s)"

definition crossVectors :: "Vector3 \<Rightarrow> Vector3 \<Rightarrow> Vector3" where
  "crossVectors a b =
     vec3 (vy a * vz b - vz a * vy b) (vz a * vx b - vx a * vz b) (vx a * vy b - vy a * vx b)"

definition vlength :: "Vector3 \<Rightarrow> real" where
  "vlength a = sqrt (vx a * vx a + vy a * vy a + vz a * vz a)"

text \<open>\<open>normalize()\<close> is \<open>divideScalar(length() || 1)\<close>: the zero vector stays zero.\<close>

definition normalize :: "Vector3 \<Rightarrow> Vector3" where
  "normalize a = divideScalar a (if vlength a = 0 then 1 else vlength a)"

record Quaternion =
  qx :: real
  qy :: real
  qz :: real
  qw :: real

definition quat :: "real \<Rightarrow> real \<Rightarrow> real \<Rightarrow> real \<Rightarrow> Quaternion" where
  "quat x y z w = \<lparr>qx = x, qy = y, qz = z, qw = w\<rparr>"

text \<open>\<open>a.multiply(b)\<close> is the Hamilton product \<open>a * b\<close> (post-multiplication by \<open>b\<close>).\<close>

definition multiply :: "Quaternion \<Rightarrow> Quaternion \<Rightarrow> Quaternion" where
  "multiply a b =
     quat (qx a * qw b + qw a * qx b + qy a * qz b - qz a * qy b)
          (qy a * qw b + qw a * qy b + qz a * qx b - qx a * qz b)
          (qz a * qw b + qw a * qz b + qx a * qy b - qy a * qx b)
          (qw a * qw b - qx a * qx b - qy a * qy b - qz a * qz b)"

text \<open>\<open>setFromEuler\<close> for the default rotation order \<open>XYZ\<close>, which \<open>Euler.set(x, y, z)\<close> keeps.\<close>

definition setFromEuler :: "real \<Rightarrow> real \<Rightarrow> real \<Rightarrow> Quaternion" where
  "setFromEuler x y z =
     (let c1 = cos (x / 2); c2 = cos (y / 2); c3 = cos (z / 2);
          s1 = sin (x / 2); s2 = sin (y / 2); s3 = sin (z / 2)
      in quat (s1 * c2 * c3 + c1 * s2 * s3)
              (c1 * s2 * c3 - s1 * c2 * s3)
              (c1 * c2 * s3 + s1 * s2 * c3)
              (c1 * c2 * c3 - s1 * s2 * s3))"

definition setFromAxisAngle :: "Vector3 \<Rightarrow> real \<Rightarrow> Quaternion" where
  "setFromAxisAngle axis angle =
     (let halfAngle = angle / 2; s = sin halfAngle
      in quat (vx axis * s) (vy axis * s) (vz axis * s) (cos halfAngle))"

section \<open>Locomotion state machine: state and playback rate from speed\<close>

datatype AnimationState = IDLE | WALK | RUN

definition CROSSFADE_DURATION :: real where "CROSSFADE_DURATION = 0.25"
definition WALK_SPEED_THRESHOLD :: real where "WALK_SPEED_THRESHOLD = 0.1"
definition RUN_SPEED_THRESHOLD :: real where "RUN_SPEED_THRESHOLD = 4.0"
definition MIN_WALK_SPEED_SCALE :: real where "MIN_WALK_SPEED_SCALE = 0.8"
definition MAX_WALK_SPEED_SCALE :: real where "MAX_WALK_SPEED_SCALE = 1.3"
definition WALK_SPEED_DIVISOR :: real where "WALK_SPEED_DIVISOR = 2.0"
definition MAX_RUN_SPEED_SCALE :: real where "MAX_RUN_SPEED_SCALE = 1.5"
definition UPPER_BODY_INERTIA_FACTOR :: real where "UPPER_BODY_INERTIA_FACTOR = 0.1"
definition HEAD_LAG_FACTOR :: real where "HEAD_LAG_FACTOR = 0.15"
definition SHOULDER_LAG_FACTOR :: real where "SHOULDER_LAG_FACTOR = 0.08"

text \<open>
  The locals \<open>targetState\<close> and \<open>animationSpeed\<close> of \<open>updateFromSpeed\<close>
  (animationController.js, the block that starts from \<open>IDLE\<close> and \<open>1.0\<close>).
\<close>

definition targetOfSpeed :: "real \<Rightarrow> AnimationState \<times> real" where
  "targetOfSpeed speed =
     (if speed > WALK_SPEED_THRESHOLD then
        (if speed > RUN_SPEED_THRESHOLD
         then (RUN, min MAX_RUN_SPEED_SCALE (speed / RUN_SPEED_THRESHOLD))
         else (WALK, max MIN_WALK_SPEED_SCALE
                       (min MAX_WALK_SPEED_SCALE (speed / WALK_SPEED_DIVISOR))))
      else (IDLE, 1.0))"

section \<open>Secondary motion: spring-damper units (secondaryMotion.js)\<close>

definition SPRING_STIFFNESS :: real where "SPRING_STIFFNESS = 15.0"
definition SPRING_DAMPING :: real where "SPRING_DAMPING = 0.8"
definition MAX_DISPLACEMENT :: real where "MAX_DISPLACEMENT = 0.3"
definition MAX_DELTA_TIME :: real where "MAX_DELTA_TIME = 0.1"
definition VELOCITY_SCALE :: real where "VELOCITY_SCALE = 0.5"
definition ACCELERATION_SCALE :: real where "ACCELERATION_SCALE = 0.3"

datatype SecondaryMotionType = HAIR | CLOTH | UPPER_BODY

text \<open>
  Bones are objects shared between the mixer, the key-bone table and the springs.
  A bone is named by an index, and the rotations of all bones live in one store,
  so that two references to the same bone see each other's writes. Every three.js
  bone has a \<open>quaternion\<close>, so the guards \<open>if (this.bone.quaternion)\<close> always pass.
\<close>

type_synonym bone = nat
type_synonym boneStore = "bone \<Rightarrow> Quaternion"

record SpringConfig =
  cfgStiffness :: "real option"
  cfgDamping :: "real option"
  cfgMaxDisplacement :: "real option"

record BoneSpring =
  bone :: bone
  type :: SecondaryMotionType
  stiffness :: real
  damping :: real
  maxDisplacement :: real
  velocity :: Vector3
  displacement :: Vector3
  originalRotation :: Quaternion

text \<open>\<open>config.x || DEFAULT\<close>: a missing or zero entry takes the default.\<close>

definition orDefault :: "real option \<Rightarrow> real \<Rightarrow> real" where
  "orDefault v d = (case v of None \<Rightarrow> d | Some x \<Rightarrow> if x = 0 then d else x)"

definition newBoneSpring ::
  "boneStore \<Rightarrow> bone \<Rightarrow> SecondaryMotionType \<Rightarrow> SpringConfig \<Rightarrow> BoneSpring" where
  "newBoneSpring q b t config =
     \<lparr>bone = b, type = t,
      stiffness = orDefault (cfgStiffness config) SPRING_STIFFNESS,
      damping = orDefault (cfgDamping config) SPRING_DAMPING,
      maxDisplacement = orDefault (cfgMaxDisplacement config) MAX_DISPLACEMENT,
      velocity = vec3 0 0 0,
      displacement = vec3 0 0 0,
      originalRotation = q b\<rparr>"

text \<open>
  The three profiles that \<open>discoverAndSetupBones\<close> passes to the constructor, and
  the empty configuration, for which every parameter is the module default.
\<close>

definition configOf :: "SecondaryMotionType \<Rightarrow> SpringConfig" where
  "configOf t =
     (case t of
        HAIR \<Rightarrow> \<lparr>cfgStiffness = Some 12.0, cfgDamping = Some 0.7, cfgMaxDisplacement = Some 0.4\<rparr>
      | CLOTH \<Rightarrow> \<lparr>cfgStiffness = Some 10.0, cfgDamping = Some 0.6, cfgMaxDisplacement = Some 0.5\<rparr>
      | UPPER_BODY \<Rightarrow>
          \<lparr>cfgStiffness = Some 20.0, cfgDamping = Some 0.9, cfgMaxDisplacement = Some 0.15\<rparr>)"

definition noConfig :: SpringConfig where
  "noConfig = \<lparr>cfgStiffness = None, cfgDamping = None, cfgMaxDisplacement = None\<rparr>"

text \<open>
  Names: \<open>toLowerCase\<close> on the letters A to Z, and \<open>includes\<close> (here \<open>includes_s\<close>), the test for a
  substring.
\<close>

definition toLowerCase :: "string \<Rightarrow> string" where
  "toLowerCase s =
     map (\<lambda>c. let n = (of_char c :: nat) in if 65 \<le> n \<and> n \<le> 90 then char_of (n + 32) else c) s"

fun includes_s :: "string \<Rightarrow> string \<Rightarrow> bool" where
  "includes_s [] k = (k = [])"
| "includes_s (c # s) k = (take (length k) (c # s) = k \<or> includes_s s k)"

definition HAIR_KEYWORDS :: "string list" where
  "HAIR_KEYWORDS = [''hair'', ''ponytail'', ''braid'', ''strand'']"

definition CLOTH_KEYWORDS :: "string list" where
  "CLOTH_KEYWORDS = [''cloth'', ''cape'', ''skirt'', ''scarf'', ''ribbon'', ''tie'']"

definition UPPER_BODY_KEYWORDS :: "string list" where
  "UPPER_BODY_KEYWORDS = [''spine'', ''chest'', ''upperchest'', ''neck'']"

text \<open>\<open>KEYWORDS.some(keyword => name.includes(keyword))\<close>.\<close>

definition someIncluded :: "string list \<Rightarrow> string \<Rightarrow> bool" where
  "someIncluded keywords name = list_ex (includes_s name) keywords"

text \<open>
  The class of a bone in \<open>discoverAndSetupBones\<close>: hair before cloth before upper
  body, the first group with a keyword in the lower-cased name.
\<close>

definition classify :: "string \<Rightarrow> SecondaryMotionType option" where
  "classify boneName =
     (let name = toLowerCase boneName
      in if someIncluded HAIR_KEYWORDS name then Some HAIR
         else if someIncluded CLOTH_KEYWORDS name then Some CLOTH
         else if someIncluded UPPER_BODY_KEYWORDS name then Some UPPER_BODY
         else None)"

text \<open>
  \<open>discoverAndSetupBones\<close>, on the bones of the model in traversal order, each with
  its name: the springs of the hair bones come first, then those of the cloth bones,
  then those of the upper-body bones.
\<close>

definition discoverAndSetupBones :: "boneStore \<Rightarrow> (bone \<times> string) list \<Rightarrow> BoneSpring list" where
  "discoverAndSetupBones q boneObjects =
     (let hairBones = map fst (filter (\<lambda>bn. classify (snd bn) = Some HAIR) boneObjects);
          clothBones = map fst (filter (\<lambda>bn. classify (snd bn) = Some CLOTH) boneObjects);
          upperBodyBones = map fst (filter (\<lambda>bn. classify (snd bn) = Some UPPER_BODY) boneObjects)
      in map (\<lambda>b. newBoneSpring q b HAIR (configOf HAIR)) hairBones @
         map (\<lambda>b. newBoneSpring q b CLOTH (configOf CLOTH)) clothBones @
         map (\<lambda>b. newBoneSpring q b UPPER_BODY (configOf UPPER_BODY)) upperBodyBones)"

definition applyDisplacement :: "BoneSpring \<Rightarrow> boneStore \<Rightarrow> boneStore" where
  "applyDisplacement sp q =
     (let angle = vlength (displacement sp)
      in if angle > 0.001
         then (let axis = normalize (displacement sp)
               in q(bone sp := multiply (originalRotation sp) (setFromAxisAngle axis angle)))
         else q(bone sp := originalRotation sp))"

text \<open>
  \<open>BoneSpring.update\<close>. The velocity and acceleration arguments may be absent (the
  source tests them); the result is the spring and the bone store it wrote to.
\<close>

definition BoneSpring_update ::
  "real \<Rightarrow> Vector3 option \<Rightarrow> Vector3 option \<Rightarrow> BoneSpring \<times> boneStore
     \<Rightarrow> BoneSpring \<times> boneStore" where
  "BoneSpring_update deltaTime0 characterVelocity characterAcceleration st =
     (let sp = fst st;
          deltaTime = (if deltaTime0 \<le> 0 \<or> deltaTime0 > MAX_DELTA_TIME then 0.016 else deltaTime0);
          force0 = vec3 0 0 0;
          force1 = (case characterVelocity of None \<Rightarrow> force0
                    | Some v \<Rightarrow> addScaledVector force0 v (- VELOCITY_SCALE));
          force2 = (case characterAcceleration of None \<Rightarrow> force1
                    | Some a \<Rightarrow> addScaledVector force1 a (- ACCELERATION_SCALE));
          springForce = multiplyScalar (displacement sp) (- stiffness sp);
          dampingForce = multiplyScalar (velocity sp) (- damping sp);
          force = add (add force2 springForce) dampingForce;
          velocity1 = addScaledVector (velocity sp) force deltaTime;
          displacement1 = addScaledVector (displacement sp) velocity1 deltaTime;
          displacementMagnitude = vlength displacement1;
          sp1 = (if displacementMagnitude > maxDisplacement sp
                 then sp\<lparr>velocity := multiplyScalar velocity1 0.5,
                         displacement :=
                           multiplyScalar (normalize displacement1) (maxDisplacement sp)\<rparr>
                 else sp\<lparr>velocity := velocity1, displacement := displacement1\<rparr>)
      in (sp1, applyDisplacement sp1 (snd st)))"

definition BoneSpring_reset :: "BoneSpring \<times> boneStore \<Rightarrow> BoneSpring \<times> boneStore" where
  "BoneSpring_reset st =
     (let sp = fst st
      in (sp\<lparr>velocity := vec3 0 0 0, displacement := vec3 0 0 0\<rparr>,
          (snd st)(bone sp := originalRotation sp)))"

definition updateOriginalRotation :: "boneStore \<Rightarrow> BoneSpring \<Rightarrow> BoneSpring" where
  "updateOriginalRotation q sp = sp\<lparr>originalRotation := q (bone sp)\<rparr>"

text \<open>A run of update calls on one spring, each with its own arguments.\<close>

fun updates ::
  "(real \<times> Vector3 option \<times> Vector3 option) list \<Rightarrow> BoneSpring \<times> boneStore
     \<Rightarrow> BoneSpring \<times> boneStore" where
  "updates [] st = st"
| "updates ((dt, v, a) # rest) st = updates rest (BoneSpring_update dt v a st)"

subsection \<open>The coordinator\<close>

record Model =
  position :: Vector3
  rotationY :: real
  quaternions :: boneStore

record SecondaryMotionController =
  springs :: "BoneSpring list"
  previousPosition :: Vector3
  currentVelocity :: Vector3
  currentAcceleration :: Vector3
  previousVelocity :: Vector3

definition updateCharacterMotion ::
  "real \<Rightarrow> Model \<Rightarrow> SecondaryMotionController \<Rightarrow> SecondaryMotionController" where
  "updateCharacterMotion deltaTime0 model sm =
     (let deltaTime = (if deltaTime0 \<le> 0 \<or> deltaTime0 > MAX_DELTA_TIME then 0.016 else deltaTime0);
          tempVector1 = position model;
          v = divideScalar (subVectors tempVector1 (previousPosition sm)) deltaTime;
          a = divideScalar (subVectors v (previousVelocity sm)) deltaTime
      in sm\<lparr>currentVelocity := v, currentAcceleration := a,
             previousPosition := tempVector1, previousVelocity := v\<rparr>)"

text \<open>The loop \<open>for (const spring of this.springs) spring.update(...)\<close>.\<close>

fun updateSprings ::
  "real \<Rightarrow> Vector3 \<Rightarrow> Vector3 \<Rightarrow> BoneSpring list \<Rightarrow> boneStore \<Rightarrow> BoneSpring list \<times> boneStore" where
  "updateSprings dt v a [] q = ([], q)"
| "updateSprings dt v a (sp # sps) q =
     (let r = BoneSpring_update dt (Some v) (Some a) (sp, q);
          rs = updateSprings dt v a sps (snd r)
      in (fst r # fst rs, snd rs))"

definition SecondaryMotion_update ::
  "real \<Rightarrow> Model \<times> SecondaryMotionController \<Rightarrow> Model \<times> SecondaryMotionController" where
  "SecondaryMotion_update deltaTime st =
     (let model = fst st; sm = snd st
      in if springs sm = [] then st
         else (let sm1 = updateCharacterMotion deltaTime model sm;
                   r = updateSprings deltaTime (currentVelocity sm1) (currentAcceleration sm1)
                         (springs sm1) (quaternions model)
               in (model\<lparr>quaternions := snd r\<rparr>, sm1\<lparr>springs := fst r\<rparr>)))"

definition onAnimationUpdate :: "Model \<Rightarrow> SecondaryMotionController \<Rightarrow> SecondaryMotionController" where
  "onAnimationUpdate model sm =
     sm\<lparr>springs := map (updateOriginalRotation (quaternions model)) (springs sm)\<rparr>"

definition hasSecondaryMotion :: "SecondaryMotionController \<Rightarrow> bool" where
  "hasSecondaryMotion sm = (length (springs sm) > 0)"

section \<open>The spring step in double-precision arithmetic\<close>


definition roundEven :: "real \<Rightarrow> int" where
  "roundEven r =
     (let f = \<lfloor>r\<rfloor>; d = r - of_int f
      in if d < 1 / 2 then f else if 1 / 2 < d then f + 1 else if even f then f else f + 1)"

definition fl :: "real \<Rightarrow> real" where
  "fl x =
     (if x = 0 then 0
      else (let q = 2 powr (of_int \<lfloor>log 2 \<bar>x\<bar>\<rfloor> - 52) in of_int (roundEven (x / q)) * q))"










section \<open>The animation mixer, at its interface\<close>

text \<open>
  The mixer and its actions belong to the rendering engine. They are modelled by what
  the controller can do to them: \<open>clipAction\<close> returns the one action of a clip
  (creating it with the engine's defaults on first use), each call on an action is
  recorded in \<open>calls\<close> and sets the properties the engine documents for it, and
  \<open>update\<close> advances the clock and writes the pose given by \<open>tracks\<close> to the bones
  that the active clips animate. A clip is named by its name; an action is named by
  its clip.
\<close>

type_synonym clip = string

datatype ActionCall =
  SetLoopRepeat | SetEffectiveTimeScale real | FadeOut real | FadeIn real | Reset | Play

record AnimationAction =
  timeScale :: real
  weight :: real
  loopRepeat :: bool
  clampWhenFinished :: bool
  time :: real
  enabled :: bool
  paused :: bool
  scheduled :: bool
  fading :: "(real \<times> real \<times> real) option"

record Mixer =
  actions :: "clip \<rightharpoonup> AnimationAction"
  calls :: "(clip \<times> ActionCall) list"
  clock :: real
  tracks :: "(clip \<rightharpoonup> AnimationAction) \<Rightarrow> real \<Rightarrow> bone \<rightharpoonup> Quaternion"

definition newAction :: AnimationAction where
  "newAction =
     \<lparr>timeScale = 1, weight = 1, loopRepeat = True, clampWhenFinished = False, time = 0,
      enabled = True, paused = False, scheduled = False, fading = None\<rparr>"

definition clipAction :: "clip \<Rightarrow> Mixer \<Rightarrow> Mixer" where
  "clipAction c m =
     (case actions m c of Some a \<Rightarrow> m | None \<Rightarrow> m\<lparr>actions := (actions m)(c \<mapsto> newAction)\<rparr>)"

definition onAction :: "clip \<Rightarrow> ActionCall \<Rightarrow> (AnimationAction \<Rightarrow> AnimationAction) \<Rightarrow> Mixer \<Rightarrow> Mixer" where
  "onAction c call f m =
     m\<lparr>actions := (actions m)(c := map_option f (actions m c)), calls := calls m @ [(c, call)]\<rparr>"

definition setLoopRepeat :: "clip \<Rightarrow> Mixer \<Rightarrow> Mixer" where
  "setLoopRepeat c = onAction c SetLoopRepeat (\<lambda>a. a\<lparr>loopRepeat := True\<rparr>)"

definition setEffectiveTimeScale :: "clip \<Rightarrow> real \<Rightarrow> Mixer \<Rightarrow> Mixer" where
  "setEffectiveTimeScale c s = onAction c (SetEffectiveTimeScale s) (\<lambda>a. a\<lparr>timeScale := s\<rparr>)"

definition fadeOut :: "clip \<Rightarrow> real \<Rightarrow> Mixer \<Rightarrow> Mixer" where
  "fadeOut c d = onAction c (FadeOut d) (\<lambda>a. a\<lparr>fading := Some (d, 1, 0)\<rparr>)"

definition fadeIn :: "clip \<Rightarrow> real \<Rightarrow> Mixer \<Rightarrow> Mixer" where
  "fadeIn c d = onAction c (FadeIn d) (\<lambda>a. a\<lparr>fading := Some (d, 0, 1)\<rparr>)"

definition reset :: "clip \<Rightarrow> Mixer \<Rightarrow> Mixer" where
  "reset c = onAction c Reset (\<lambda>a. a\<lparr>paused := False, enabled := True, time := 0, fading := None\<rparr>)"

definition play :: "clip \<Rightarrow> Mixer \<Rightarrow> Mixer" where
  "play c = onAction c Play (\<lambda>a. a\<lparr>scheduled := True\<rparr>)"

definition advance :: "real \<Rightarrow> AnimationAction \<Rightarrow> AnimationAction" where
  "advance dt a =
     (if scheduled a \<and> enabled a \<and> \<not> paused a then a\<lparr>time := time a + dt * timeScale a\<rparr> else a)"

definition Mixer_update :: "real \<Rightarrow> Mixer \<times> boneStore \<Rightarrow> Mixer \<times> boneStore" where
  "Mixer_update dt st =
     (let m = fst st;
          m1 = m\<lparr>actions := (\<lambda>c. map_option (advance dt) (actions m c)), clock := clock m + dt\<rparr>;
          pose = tracks m1 (actions m1) (clock m1)
      in (m1, (\<lambda>b. case pose b of Some r \<Rightarrow> r | None \<Rightarrow> snd st b)))"

text \<open>What an observer reads off an action: its time scale, its weight and its fade.\<close>

definition timeScaleOf :: "Mixer \<Rightarrow> clip \<Rightarrow> real option" where
  "timeScaleOf m c = map_option timeScale (actions m c)"

definition weightOf :: "Mixer \<Rightarrow> clip \<Rightarrow> (real \<times> (real \<times> real \<times> real) option) option" where
  "weightOf m c = map_option (\<lambda>a. (weight a, fading a)) (actions m c)"

section \<open>AnimationController (animationController.js)\<close>

record AnimationClips =
  idle :: "clip option"
  walk :: "clip option"
  run :: "clip option"

record KeyBones =
  spine :: "bone option"
  chest :: "bone option"
  neck :: "bone option"
  head :: "bone option"
  leftShoulder :: "bone option"
  rightShoulder :: "bone option"
  hips :: "bone option"

text \<open>
  \<open>skeleton\<close> records whether a skeleton was found; \<open>warnings\<close> is the sequence of
  \<open>console.warn\<close> diagnostics "No animation available for state", by state.
\<close>

record AnimationController =
  mixer :: "Mixer option"
  currentState :: AnimationState
  currentAction :: "clip option"
  animationClips :: AnimationClips
  skeleton :: bool
  bones :: KeyBones
  previousRotation :: real
  rotationVelocity :: real
  secondaryMotion :: SecondaryMotionController
  warnings :: "AnimationState list"

text \<open>\<open>a || b\<close> on clips that may be \<open>null\<close>.\<close>

definition orElse :: "'a option \<Rightarrow> 'a option \<Rightarrow> 'a option" where
  "orElse a b = (case a of Some x \<Rightarrow> Some x | None \<Rightarrow> b)"

definition configureAction :: "clip \<Rightarrow> real \<Rightarrow> Mixer \<Rightarrow> Mixer" where
  "configureAction action speed m =
     setEffectiveTimeScale action speed
       ((setLoopRepeat action m)\<lparr>actions :=
           (actions (setLoopRepeat action m))
             (action := map_option (\<lambda>a. a\<lparr>clampWhenFinished := False\<rparr>)
                          (actions (setLoopRepeat action m) action))\<rparr>)"

definition playAnimation ::
  "clip option \<Rightarrow> AnimationState \<Rightarrow> real \<Rightarrow> AnimationController \<Rightarrow> AnimationController" where
  "playAnimation clipArg state speed ac =
     (case (mixer ac, clipArg) of
        (Some m, Some c) \<Rightarrow>
          (let m1 = configureAction c speed (clipAction c m);
               m2 = (case currentAction ac of
                       Some cur \<Rightarrow>
                         if cur \<noteq> c
                         then play c (fadeIn c CROSSFADE_DURATION
                                (reset c (fadeOut cur CROSSFADE_DURATION m1)))
                         else m1
                     | None \<Rightarrow> play c (reset c m1))
           in ac\<lparr>mixer := Some m2, currentAction := Some c, currentState := state\<rparr>)
      | _ \<Rightarrow> ac)"

definition targetClipOf :: "AnimationController \<Rightarrow> AnimationState \<Rightarrow> clip option" where
  "targetClipOf ac newState =
     (case newState of
        IDLE \<Rightarrow> idle (animationClips ac)
      | WALK \<Rightarrow> orElse (walk (animationClips ac)) (idle (animationClips ac))
      | RUN \<Rightarrow> orElse (orElse (run (animationClips ac)) (walk (animationClips ac)))
                 (idle (animationClips ac)))"

definition transitionToState ::
  "AnimationState \<Rightarrow> real \<Rightarrow> AnimationController \<Rightarrow> AnimationController" where
  "transitionToState newState speed ac =
     (case targetClipOf ac newState of
        Some targetClip \<Rightarrow> playAnimation (Some targetClip) newState speed ac
      | None \<Rightarrow> ac\<lparr>warnings := warnings ac @ [newState]\<rparr>)"

text \<open>One procedural write: \<open>bone.quaternion.multiply(setFromEuler(x, y, z))\<close>.\<close>

definition rotateBone :: "bone \<Rightarrow> real \<Rightarrow> real \<Rightarrow> real \<Rightarrow> boneStore \<Rightarrow> boneStore" where
  "rotateBone b x y z q = q(b := multiply (q b) (setFromEuler x y z))"

definition applyProceduralOffsets ::
  "real \<Rightarrow> real \<Rightarrow> Model \<times> AnimationController \<Rightarrow> Model \<times> AnimationController" where
  "applyProceduralOffsets speed deltaTime st =
     (let model = fst st; ac = snd st
      in if \<not> skeleton ac \<or> deltaTime \<le> 0 \<or> deltaTime > 0.1 then st
         else
           (let currentRotation = rotationY model;
                rotationDelta = currentRotation - previousRotation ac;
                rv = rotationDelta / deltaTime;
                q0 = quaternions model;
                q1 = (case spine (bones ac) of
                        Some b \<Rightarrow>
                          if \<bar>rv\<bar> > 0.1
                          then rotateBone b 0 (- rv * UPPER_BODY_INERTIA_FACTOR * deltaTime) 0 q0
                          else q0
                      | None \<Rightarrow> q0);
                q2 = (case head (bones ac) of
                        Some b \<Rightarrow>
                          if \<bar>rv\<bar> > 0.1
                          then rotateBone b 0 (- rv * HEAD_LAG_FACTOR * deltaTime) 0 q1
                          else q1
                      | None \<Rightarrow> q1);
                q3 = (case (leftShoulder (bones ac), rightShoulder (bones ac)) of
                        (Some l, Some r) \<Rightarrow>
                          if \<bar>rv\<bar> > 0.1
                          then (let shoulderLag = rv * SHOULDER_LAG_FACTOR * deltaTime
                                in rotateBone r 0 0 (- shoulderLag) (rotateBone l 0 0 shoulderLag q2))
                          else q2
                      | _ \<Rightarrow> q2)
            in (model\<lparr>quaternions := q3\<rparr>,
                ac\<lparr>rotationVelocity := rv, previousRotation := currentRotation\<rparr>)))"

text \<open>
  \<open>findKeyBones\<close>: one pass over the skeleton's bones, given as pairs of a bone and
  its name; the first bone that matches a role takes it, and a bone takes at most one
  role.
\<close>

definition assignRole :: "KeyBones \<Rightarrow> bone \<times> string \<Rightarrow> KeyBones" where
  "assignRole kb bn =
     (let b = fst bn; name = toLowerCase (snd bn)
      in if includes_s name ''spine'' \<and> spine kb = None then kb\<lparr>spine := Some b\<rparr>
         else if (includes_s name ''chest'' \<or> includes_s name ''upperchest'') \<and> chest kb = None
           then kb\<lparr>chest := Some b\<rparr>
         else if includes_s name ''neck'' \<and> neck kb = None then kb\<lparr>neck := Some b\<rparr>
         else if includes_s name ''head'' \<and> head kb = None then kb\<lparr>head := Some b\<rparr>
         else if (includes_s name ''shoulder'' \<or> includes_s name ''clavicle'')
                 \<and> includes_s name ''left'' \<and> leftShoulder kb = None
           then kb\<lparr>leftShoulder := Some b\<rparr>
         else if (includes_s name ''shoulder'' \<or> includes_s name ''clavicle'')
                 \<and> includes_s name ''right'' \<and> rightShoulder kb = None
           then kb\<lparr>rightShoulder := Some b\<rparr>
         else if (includes_s name ''hips'' \<or> includes_s name ''pelvis'') \<and> hips kb = None
           then kb\<lparr>hips := Some b\<rparr>
         else kb)"

definition findKeyBones :: "KeyBones \<Rightarrow> (bone \<times> string) list \<Rightarrow> KeyBones" where
  "findKeyBones kb skeletonBones = foldl assignRole kb skeletonBones"

text \<open>
  The bones that the procedural layer may write. \<open>findKeyBones\<close> gives a bone at most
  one role (its tests form one \<open>else if\<close> chain), so these are pairwise distinct.
\<close>

definition proceduralTargets :: "KeyBones \<Rightarrow> bone list" where
  "proceduralTargets kb =
     concat (map (\<lambda>b. case b of None \<Rightarrow> [] | Some x \<Rightarrow> [x])
               [spine kb, head kb, leftShoulder kb, rightShoulder kb])"

text \<open>The secondary-motion calls of \<open>updateFromSpeed\<close>, on the controller's own coordinator.\<close>

definition secondaryUpdate ::
  "real \<Rightarrow> Model \<times> AnimationController \<Rightarrow> Model \<times> AnimationController" where
  "secondaryUpdate deltaTime st =
     (let r = SecondaryMotion_update deltaTime (fst st, secondaryMotion (snd st))
      in (fst r, (snd st)\<lparr>secondaryMotion := snd r\<rparr>))"

definition updateFromSpeed ::
  "real \<Rightarrow> real \<Rightarrow> Model \<times> AnimationController \<Rightarrow> Model \<times> AnimationController" where
  "updateFromSpeed speed deltaTime st =
     (let model = fst st; ac = snd st
      in case mixer ac of
           None \<Rightarrow>
             if hasSecondaryMotion (secondaryMotion ac) then secondaryUpdate deltaTime st else st
         | Some m0 \<Rightarrow>
             (let targetState = fst (targetOfSpeed speed);
                  animationSpeed = snd (targetOfSpeed speed);
                  ac1 = (if currentState ac \<noteq> targetState
                         then transitionToState targetState animationSpeed ac
                         else (case currentAction ac of
                                 Some cur \<Rightarrow>
                                   ac\<lparr>mixer := map_option (setEffectiveTimeScale cur animationSpeed)
                                                  (mixer ac)\<rparr>
                               | None \<Rightarrow> ac));
                  mixed = (case mixer ac1 of
                             Some m \<Rightarrow>
                               (let r = Mixer_update deltaTime (m, quaternions model)
                                in (model\<lparr>quaternions := snd r\<rparr>, ac1\<lparr>mixer := Some (fst r)\<rparr>))
                           | None \<Rightarrow> (model, ac1));
                  notified = (if hasSecondaryMotion (secondaryMotion (snd mixed))
                              then (fst mixed,
                                    (snd mixed)\<lparr>secondaryMotion :=
                                       onAnimationUpdate (fst mixed) (secondaryMotion (snd mixed))\<rparr>)
                              else mixed);
                  offset = applyProceduralOffsets speed deltaTime notified
              in if hasSecondaryMotion (secondaryMotion (snd offset))
                 then secondaryUpdate deltaTime offset else offset))"

text \<open>The controller after the first step of \<open>updateFromSpeed\<close>: transition or rate update.\<close>

abbreviation selected :: "real \<Rightarrow> AnimationController \<Rightarrow> AnimationController" where
  "selected speed ac \<equiv>
     (if currentState ac \<noteq> fst (targetOfSpeed speed)
      then transitionToState (fst (targetOfSpeed speed)) (snd (targetOfSpeed speed)) ac
      else (case currentAction ac of
              Some cur \<Rightarrow>
                ac\<lparr>mixer := map_option (setEffectiveTimeScale cur (snd (targetOfSpeed speed)))
                               (mixer ac)\<rparr>
            | None \<Rightarrow> ac))"

section \<open>CharacterController (main.js, the version with smoothed speed and heading)\<close>

definition WALK_SPEED :: real where "WALK_SPEED = 2.0"
definition RUN_SPEED :: real where "RUN_SPEED = 5.0"
definition ROTATION_SPEED :: real where "ROTATION_SPEED = 10.0"
definition ROTATION_SMOOTHING :: real where "ROTATION_SMOOTHING = 0.15"
definition MOVEMENT_ACCELERATION :: real where "MOVEMENT_ACCELERATION = 8.0"
definition MOVEMENT_DECELERATION :: real where "MOVEMENT_DECELERATION = 12.0"

record CharacterController =
  velocity_c :: Vector3
  currentSpeed :: real
  targetSpeed :: real
  currentRotation :: real
  targetRotation :: real
  animationController :: AnimationController

definition shortestAngle :: "real \<Rightarrow> real \<Rightarrow> real" where
  "shortestAngle current target =
     (let delta = target - current
      in jsRem (delta + pi) (pi * 2) - pi)"

text \<open>
  \<open>update(deltaTime, inputManager)\<close>. The input manager's answers (\<open>input\<close>, the
  pair \<open>(x, z)\<close>, and \<open>isSprinting\<close>) and the camera's world direction are arguments.
\<close>

definition CharacterController_update ::
  "real \<Rightarrow> real \<times> real \<Rightarrow> bool \<Rightarrow> Vector3 \<Rightarrow> Model \<times> CharacterController
     \<Rightarrow> Model \<times> CharacterController" where
  "CharacterController_update deltaTime input isSprinting worldDirection st =
     (let model = fst st; cc = snd st;
          isMoving = (\<bar>fst input\<bar> > 0.01 \<or> \<bar>snd input\<bar> > 0.01);
          moved =
            (if isMoving then
               (let cameraDirection = normalize (worldDirection\<lparr>vy := 0\<rparr>);
                    cameraRight = crossVectors cameraDirection (vec3 0 1 0);
                    moveDirection =
                      normalize (addScaledVector (addScaledVector (vec3 0 0 0) cameraRight (fst input))
                                   cameraDirection (- snd input));
                    targetSpeed1 = (if isSprinting then RUN_SPEED else WALK_SPEED);
                    acceleration = MOVEMENT_ACCELERATION * deltaTime;
                    currentSpeed1 = lerp (currentSpeed cc) targetSpeed1 acceleration;
                    velocity1 = multiplyScalar moveDirection (currentSpeed1 * deltaTime);
                    targetRotation1 = atan2 (vx moveDirection) (vz moveDirection);
                    rotationDelta = shortestAngle (currentRotation cc) targetRotation1;
                    rotationSpeed = ROTATION_SPEED * deltaTime;
                    smoothedRotation = rotationDelta * ROTATION_SMOOTHING;
                    clampedRotation = clamp smoothedRotation (- rotationSpeed) rotationSpeed;
                    currentRotation1 = currentRotation cc + clampedRotation
                in (model\<lparr>position := add (position model) velocity1, rotationY := currentRotation1\<rparr>,
                    cc\<lparr>targetSpeed := targetSpeed1, currentSpeed := currentSpeed1,
                       velocity_c := velocity1, targetRotation := targetRotation1,
                       currentRotation := currentRotation1\<rparr>))
             else
               (let deceleration = MOVEMENT_DECELERATION * deltaTime;
                    currentSpeed1 = lerp (currentSpeed cc) 0 deceleration
                in (model,
                    cc\<lparr>targetSpeed := 0,
                       currentSpeed := (if currentSpeed1 < 0.01 then 0 else currentSpeed1)\<rparr>)));
          r = updateFromSpeed (currentSpeed (snd moved)) deltaTime
                (fst moved, animationController (snd moved))
      in (fst r, (snd moved)\<lparr>animationController := snd r\<rparr>))"


text \<open>
  The controller after a run of \<open>updateFromSpeed\<close> calls, one per frame. Before each
  call the character controller has moved the model: a frame is the speed, the time
  step, and the model's new position and heading.
\<close>

fun speedFrames ::
  "(real \<times> real \<times> Vector3 \<times> real) list \<Rightarrow> Model \<times> AnimationController
     \<Rightarrow> Model \<times> AnimationController" where
  "speedFrames [] st = st"
| "speedFrames ((speed, dt, pos, rot) # rest) st =
     speedFrames rest
       (updateFromSpeed speed dt ((fst st)\<lparr>position := pos, rotationY := rot\<rparr>, snd st))"

section \<open>Two concrete scenes\<close>

text \<open>
  A model without skeleton and springs whose clips are \<open>Idle\<close> and \<open>Walk\<close>, and a
  rigged model whose bones 0 to 3 are named \<open>Spine\<close>, \<open>Head\<close>, \<open>LeftShoulder\<close> and
  \<open>RightShoulder\<close>. In the rigged model the spine is both the key bone of the
  procedural layer and, by the keyword \<open>spine\<close>, an upper-body spring bone. Its
  mixer animates no bone, so every rotation it shows was written by this code.
\<close>

definition identityQ :: Quaternion where
  "identityQ = quat 0 0 0 1"

definition restModel :: Model where
  "restModel = \<lparr>position = vec3 0 0 0, rotationY = 0, quaternions = (\<lambda>b. identityQ)\<rparr>"

definition emptyMixer :: Mixer where
  "emptyMixer = \<lparr>actions = Map.empty, calls = [], clock = 0, tracks = (\<lambda>acts t b. None)\<rparr>"

definition noBones :: KeyBones where
  "noBones = \<lparr>spine = None, chest = None, neck = None, head = None, leftShoulder = None,
              rightShoulder = None, hips = None\<rparr>"

definition stillMotion :: "BoneSpring list \<Rightarrow> SecondaryMotionController" where
  "stillMotion sps =
     \<lparr>springs = sps, previousPosition = vec3 0 0 0, currentVelocity = vec3 0 0 0,
      currentAcceleration = vec3 0 0 0, previousVelocity = vec3 0 0 0\<rparr>"

definition plainController :: AnimationController where
  "plainController =
     \<lparr>mixer = Some emptyMixer, currentState = IDLE, currentAction = None,
      animationClips = \<lparr>idle = Some ''Idle'', walk = Some ''Walk'', run = None\<rparr>,
      skeleton = False, bones = noBones, previousRotation = 0, rotationVelocity = 0,
      secondaryMotion = stillMotion [], warnings = []\<rparr>"

definition riggedBones :: KeyBones where
  "riggedBones = noBones\<lparr>spine := Some 0, head := Some 1, leftShoulder := Some 2,
                          rightShoulder := Some 3\<rparr>"

definition spineSpring :: BoneSpring where
  "spineSpring = newBoneSpring (quaternions restModel) 0 UPPER_BODY (configOf UPPER_BODY)"

definition riggedController :: AnimationController where
  "riggedController =
     plainController\<lparr>skeleton := True, bones := riggedBones,
       secondaryMotion := stillMotion [spineSpring]\<rparr>"

text \<open>The rigged model without its right shoulder.\<close>

definition oneShoulderController :: AnimationController where
  "oneShoulderController =
     riggedController\<lparr>bones := riggedBones\<lparr>rightShoulder := None\<rparr>\<rparr>"

text \<open>A controller with a mixer but no clip at all: nothing ever plays.\<close>

definition cliplessController :: AnimationController where
  "cliplessController =
     plainController\<lparr>animationClips := \<lparr>idle = None, walk = None, run = None\<rparr>\<rparr>"

text \<open>The plain controller while its \<open>Walk\<close> action plays.\<close>

definition walkingController :: AnimationController where
  "walkingController =
     plainController\<lparr>mixer := Some (emptyMixer\<lparr>actions := [''Walk'' \<mapsto> newAction\<lparr>scheduled := True\<rparr>]\<rparr>),
       currentState := WALK, currentAction := Some ''Walk''\<rparr>"

text \<open>A character at rest on the plain model, and one that already faces the heading 3.\<close>

definition standingCharacter :: CharacterController where
  "standingCharacter =
     \<lparr>velocity_c = vec3 0 0 0, currentSpeed = 0, targetSpeed = 0, currentRotation = 0,
      targetRotation = 0, animationController = plainController\<rparr>"

definition turnedCharacter :: "Model \<times> CharacterController" where
  "turnedCharacter = (restModel\<lparr>rotationY := 3\<rparr>, standingCharacter\<lparr>currentRotation := 3\<rparr>)"


section \<open>Verified properties\<close>

lemmas anim_consts =
  CROSSFADE_DURATION_def WALK_SPEED_THRESHOLD_def RUN_SPEED_THRESHOLD_def
  MIN_WALK_SPEED_SCALE_def MAX_WALK_SPEED_SCALE_def WALK_SPEED_DIVISOR_def
  MAX_RUN_SPEED_SCALE_def UPPER_BODY_INERTIA_FACTOR_def HEAD_LAG_FACTOR_def
  SHOULDER_LAG_FACTOR_def

lemmas spring_consts =
  SPRING_STIFFNESS_def SPRING_DAMPING_def MAX_DISPLACEMENT_def MAX_DELTA_TIME_def
  VELOCITY_SCALE_def ACCELERATION_SCALE_def

lemmas move_consts =
  WALK_SPEED_def RUN_SPEED_def ROTATION_SPEED_def ROTATION_SMOOTHING_def
  MOVEMENT_ACCELERATION_def MOVEMENT_DECELERATION_def

lemmas scene_defs =
  restModel_def plainController_def emptyMixer_def noBones_def stillMotion_def identityQ_def
  riggedBones_def spineSpring_def riggedController_def cliplessController_def standingCharacter_def
  turnedCharacter_def

lemmas mixer_defs =
  clipAction_def onAction_def setLoopRepeat_def setEffectiveTimeScale_def fadeOut_def fadeIn_def
  reset_def play_def advance_def Mixer_update_def newAction_def configureAction_def

lemma vlength_x: "vlength \<lparr>vx = x, vy = 0, vz = 0\<rparr> = \<bar>x\<bar>"
  by (simp add: vlength_def)

lemmas vector_defs =
  vec3_def add_def subVectors_def multiplyScalar_def divideScalar_def addScaledVector_def
  crossVectors_def

lemma tgt0: "targetOfSpeed 0 = (IDLE, 1)"
  by (simp add: targetOfSpeed_def anim_consts)

lemma tgt2: "targetOfSpeed 2 = (WALK, 1)"
  by (simp add: targetOfSpeed_def anim_consts)

lemma tgt5: "targetOfSpeed 5 = (RUN, 1.25)"
  by (simp add: targetOfSpeed_def anim_consts)

text \<open>The rigged scene is what the two discovery passes find for its four bone names.\<close>

lemma rigged_discovery:
  "discoverAndSetupBones (quaternions restModel)
     [(0, ''Spine''), (1, ''Head''), (2, ''LeftShoulder''), (3, ''RightShoulder'')] = [spineSpring]"
proof -
  have "map (\<lambda>bn. classify (snd bn))
     [(0::nat, ''Spine''), (1, ''Head''), (2, ''LeftShoulder''), (3, ''RightShoulder'')] =
     [Some UPPER_BODY, None, None, None]"
    by code_simp
  then show ?thesis
    by (simp add: discoverAndSetupBones_def spineSpring_def)
qed

lemma rigged_key_bones:
  "findKeyBones noBones [(0, ''Spine''), (1, ''Head''), (2, ''LeftShoulder''), (3, ''RightShoulder'')]
     = riggedBones"
  by code_simp

subsection \<open>What each call leaves alone\<close>

lemma timeScaleOf_onAction:
  "(\<And>a. timeScale (f a) = timeScale a) \<Longrightarrow> timeScaleOf (onAction c call f m) = timeScaleOf m"
  by (rule ext) (auto simp: timeScaleOf_def onAction_def option.map_comp o_def
      intro: option.map_cong)

lemma timeScaleOf_play [simp]: "timeScaleOf (play c m) = timeScaleOf m"
  unfolding play_def by (rule timeScaleOf_onAction) simp

lemma timeScaleOf_reset [simp]: "timeScaleOf (reset c m) = timeScaleOf m"
  unfolding reset_def by (rule timeScaleOf_onAction) simp

lemma timeScaleOf_fadeIn [simp]: "timeScaleOf (fadeIn c d m) = timeScaleOf m"
  unfolding fadeIn_def by (rule timeScaleOf_onAction) simp

lemma timeScaleOf_fadeOut [simp]: "timeScaleOf (fadeOut c d m) = timeScaleOf m"
  unfolding fadeOut_def by (rule timeScaleOf_onAction) simp

lemma timeScaleOf_setEffectiveTimeScale:
  "timeScaleOf (setEffectiveTimeScale c s m) c = map_option (\<lambda>_. s) (actions m c)"
  by (cases "actions m c") (auto simp: timeScaleOf_def setEffectiveTimeScale_def onAction_def)

lemma timeScaleOf_configureAction:
  "timeScaleOf (configureAction c speed (clipAction c m)) c = Some speed"
  by (auto simp: timeScaleOf_def configureAction_def clipAction_def setEffectiveTimeScale_def
      setLoopRepeat_def onAction_def newAction_def split: option.splits)

lemma timeScaleOf_Mixer_update:
  "timeScaleOf (fst (Mixer_update dt (m, q))) c = timeScaleOf m c"
  by (cases "actions m c") (auto simp: timeScaleOf_def Mixer_update_def Let_def advance_def)

lemma playAnimation_sets_rate:
  assumes "mixer ac = Some m"
  shows "\<exists>m'. mixer (playAnimation (Some c) state speed ac) = Some m' \<and>
           timeScaleOf m' c = Some speed \<and>
           currentAction (playAnimation (Some c) state speed ac) = Some c \<and>
           currentState (playAnimation (Some c) state speed ac) = state"
  using assms
  by (simp add: playAnimation_def Let_def timeScaleOf_configureAction split: option.splits)

subsection \<open>What each phase of a frame leaves alone\<close>

lemma applyProceduralOffsets_controller:
  "mixer (snd (applyProceduralOffsets speed dt st)) = mixer (snd st) \<and>
   currentState (snd (applyProceduralOffsets speed dt st)) = currentState (snd st) \<and>
   currentAction (snd (applyProceduralOffsets speed dt st)) = currentAction (snd st) \<and>
   warnings (snd (applyProceduralOffsets speed dt st)) = warnings (snd st) \<and>
   animationClips (snd (applyProceduralOffsets speed dt st)) = animationClips (snd st) \<and>
   secondaryMotion (snd (applyProceduralOffsets speed dt st)) = secondaryMotion (snd st)"
  by (simp add: applyProceduralOffsets_def Let_def)

lemma secondaryUpdate_controller:
  "mixer (snd (secondaryUpdate dt st)) = mixer (snd st) \<and>
   currentState (snd (secondaryUpdate dt st)) = currentState (snd st) \<and>
   currentAction (snd (secondaryUpdate dt st)) = currentAction (snd st) \<and>
   warnings (snd (secondaryUpdate dt st)) = warnings (snd st) \<and>
   animationClips (snd (secondaryUpdate dt st)) = animationClips (snd st)"
  by (simp add: secondaryUpdate_def Let_def)

lemma mixer_selected:
  "mixer ac = Some m \<Longrightarrow> \<exists>m'. mixer (selected speed ac) = Some m'"
  by (auto simp: transitionToState_def playAnimation_def Let_def split: option.splits)

lemma updateFromSpeed_controller:
  assumes "mixer (snd st) = Some m0"
  shows "currentState (snd (updateFromSpeed speed dt st)) = currentState (selected speed (snd st)) \<and>
     currentAction (snd (updateFromSpeed speed dt st)) = currentAction (selected speed (snd st)) \<and>
     warnings (snd (updateFromSpeed speed dt st)) = warnings (selected speed (snd st)) \<and>
     animationClips (snd (updateFromSpeed speed dt st)) =
       animationClips (selected speed (snd st)) \<and>
     mixer (snd (updateFromSpeed speed dt st)) =
       map_option (\<lambda>m. fst (Mixer_update dt (m, quaternions (fst st))))
         (mixer (selected speed (snd st)))"
proof -
  obtain m' where m': "mixer (selected speed (snd st)) = Some m'"
    using mixer_selected [OF assms] by blast
  show ?thesis
    using assms m'
    apply (simp only: updateFromSpeed_def Let_def option.case m')
    apply (simp add: applyProceduralOffsets_controller secondaryUpdate_controller)
    done
qed

subsection \<open>C2: the target state is a function of the speed alone\<close>

text \<open>
  The state that \<open>updateFromSpeed\<close> aims for is read off the controller it leaves
  behind: the state it ends in, the action it plays and the transitions it had to
  give up for want of a clip, which \<open>transitionToState\<close> reports as warnings.
\<close>

text \<open>
  C2. Let \<open>T\<close> be Idle for a speed of at most 0.1, Walk for a speed above 0.1 and at
  most 4.0, and Run for a speed above 4.0 (0.1 itself belongs to Idle and 4.0 itself to
  Walk). With a mixer, \<open>updateFromSpeed\<close> aims for \<open>T\<close>, whatever the time step and the
  rest of the state: a controller already in \<open>T\<close> stays in \<open>T\<close> with its action; a
  controller in another state ends in \<open>T\<close>, playing the clip that resolves for \<open>T\<close>;
  and when no clip resolves for \<open>T\<close>, state and action stay and the transition to \<open>T\<close>
  is the one reported as failed.
\<close>

theorem target_state_of_speed:
  assumes "mixer (snd st) = Some m0"
    and "T = (if s \<le> 0.1 then IDLE else if s \<le> 4.0 then WALK else RUN)"
    and "ac' = snd (updateFromSpeed s dt st)"
  shows "fst (targetOfSpeed s) = T \<and>
    (currentState (snd st) = T \<longrightarrow>
       currentState ac' = T \<and> currentAction ac' = currentAction (snd st) \<and>
       warnings ac' = warnings (snd st)) \<and>
    (currentState (snd st) \<noteq> T \<longrightarrow>
       (\<forall>c. targetClipOf (snd st) T = Some c \<longrightarrow>
          currentState ac' = T \<and> currentAction ac' = Some c \<and>
          warnings ac' = warnings (snd st)) \<and>
       (targetClipOf (snd st) T = None \<longrightarrow>
          currentState ac' = currentState (snd st) \<and>
          currentAction ac' = currentAction (snd st) \<and>
          warnings ac' = warnings (snd st) @ [T]))"
proof -
  have T: "fst (targetOfSpeed s) = T"
    using assms(2) by (simp add: targetOfSpeed_def anim_consts)
  note U = updateFromSpeed_controller [OF assms(1), of s dt]
  show ?thesis
    using assms(1) unfolding assms(3)
    by (simp add: U T transitionToState_def playAnimation_def Let_def split: option.splits)
qed

lemma plain_clips:
  "mixer plainController = Some emptyMixer" "currentState plainController = IDLE"
  "targetClipOf plainController WALK = Some ''Walk''"
  "targetClipOf plainController RUN = Some ''Walk''"
  "warnings plainController = []" "currentAction plainController = None"
  "mixer cliplessController = Some emptyMixer" "currentState cliplessController = IDLE"
  "targetClipOf cliplessController RUN = None" "warnings cliplessController = []"
  by (simp_all add: plainController_def cliplessController_def targetClipOf_def orElse_def)

theorem target_state_of_speed_witness:
  "currentState (snd (updateFromSpeed 0.1 (1/60) (restModel, plainController))) = IDLE \<and>
   currentState (snd (updateFromSpeed 4.0 (1/60) (restModel, plainController))) = WALK \<and>
   currentAction (snd (updateFromSpeed 4.0 (1/60) (restModel, plainController))) = Some ''Walk'' \<and>
   currentState (snd (updateFromSpeed 4.5 (1/60) (restModel, plainController))) = RUN \<and>
   currentState (snd (updateFromSpeed 4.5 (1/60) (restModel, cliplessController))) = IDLE \<and>
   warnings (snd (updateFromSpeed 4.5 (1/60) (restModel, cliplessController))) = [RUN]"
proof -
  have m: "mixer (snd (restModel, plainController)) = Some emptyMixer"
    "mixer (snd (restModel, cliplessController)) = Some emptyMixer"
    by (simp_all add: plain_clips)
  have i: "IDLE = (if (0.1 :: real) \<le> 0.1 then IDLE else if (0.1 :: real) \<le> 4.0 then WALK else RUN)"
    and w: "WALK = (if (4.0 :: real) \<le> 0.1 then IDLE else if (4.0 :: real) \<le> 4.0 then WALK else RUN)"
    and r: "RUN = (if (4.5 :: real) \<le> 0.1 then IDLE else if (4.5 :: real) \<le> 4.0 then WALK else RUN)"
    by simp_all
  show ?thesis
    using target_state_of_speed [OF m(1) i refl, of "1/60"]
      target_state_of_speed [OF m(1) w refl, of "1/60"]
      target_state_of_speed [OF m(1) r refl, of "1/60"]
      target_state_of_speed [OF m(2) r refl, of "1/60"]
    by (simp add: plain_clips)
qed

text \<open>Without a mixer \<open>updateFromSpeed\<close> selects nothing.\<close>

lemma updateFromSpeed_without_mixer:
  assumes "mixer (snd st) = None"
  shows "currentState (snd (updateFromSpeed s dt st)) = currentState (snd st) \<and>
         currentAction (snd (updateFromSpeed s dt st)) = currentAction (snd st) \<and>
         warnings (snd (updateFromSpeed s dt st)) = warnings (snd st)"
  using assms by (simp add: updateFromSpeed_def Let_def secondaryUpdate_controller)

subsection \<open>C1: the clamp in exact arithmetic\<close>

lemma vlength_nonneg: "0 \<le> vlength a"
  by (simp add: vlength_def)

lemma vlength_multiplyScalar: "vlength (multiplyScalar a s) = \<bar>s\<bar> * vlength a"
proof -
  have "vx a * s * (vx a * s) + vy a * s * (vy a * s) + vz a * s * (vz a * s)
        = s\<^sup>2 * (vx a * vx a + vy a * vy a + vz a * vz a)"
    by (simp add: power2_eq_square algebra_simps)
  then show ?thesis
    by (simp add: vlength_def multiplyScalar_def vec3_def real_sqrt_mult)
qed

lemma vlength_normalize: "vlength a \<noteq> 0 \<Longrightarrow> vlength (normalize a) = 1"
  using vlength_nonneg [of a]
  by (simp add: normalize_def divideScalar_def vlength_multiplyScalar)

lemma update_maxDisplacement:
  "maxDisplacement (fst (BoneSpring_update dt v a st)) = maxDisplacement (fst st)"
  by (simp add: BoneSpring_update_def Let_def)

lemma update_bounded:
  assumes "0 \<le> maxDisplacement (fst st)"
  shows "vlength (displacement (fst (BoneSpring_update dt v a st))) \<le> maxDisplacement (fst st)"
proof -
  have clamped: "vlength (multiplyScalar (normalize d) (maxDisplacement (fst st))) \<le> maxDisplacement (fst st)"
    if "vlength d > maxDisplacement (fst st)" for d
  proof -
    have "vlength d \<noteq> 0" using that assms by simp
    then show ?thesis using assms
      by (simp add: vlength_multiplyScalar vlength_normalize)
  qed
  show ?thesis
    using clamped by (simp add: BoneSpring_update_def Let_def)
qed

lemma updates_maxDisplacement:
  "maxDisplacement (fst (updates us st)) = maxDisplacement (fst st)"
  by (induction us st rule: updates.induct) (simp_all add: update_maxDisplacement)

lemma updates_snoc:
  "updates (us @ [(dt, v, a)]) st = BoneSpring_update dt v a (updates us st)"
  by (induction us st rule: updates.induct) simp_all

text \<open>
  In exact arithmetic the bound is sharp: after each call of a non-empty run the
  displacement is no longer than the spring's maximal displacement.
\<close>

lemma exact_displacement_bounded:
  assumes "0 \<le> maxDisplacement sp" and "us \<noteq> []"
  shows "vlength (displacement (fst (updates us (sp, q)))) \<le> maxDisplacement sp"
proof -
  obtain cs c where cs: "us = cs @ [c]"
    using assms(2) by (metis rev_exhaust)
  obtain dt v a where c: "c = (dt, v, a)" by (cases c)
  have "0 \<le> maxDisplacement (fst (updates cs (sp, q)))"
    using assms(1) by (simp add: updates_maxDisplacement)
  from update_bounded [OF this, of dt v a] show ?thesis
    by (simp add: cs c updates_snoc updates_maxDisplacement)
qed

lemma configured_maxDisplacement:
  "maxDisplacement (newBoneSpring q b t (configOf HAIR)) = 0.4"
  "maxDisplacement (newBoneSpring q b t (configOf CLOTH)) = 0.5"
  "maxDisplacement (newBoneSpring q b t (configOf UPPER_BODY)) = 0.15"
  "maxDisplacement (newBoneSpring q b t noConfig) = 0.3"
  by (simp_all add: newBoneSpring_def configOf_def noConfig_def orDefault_def MAX_DISPLACEMENT_def)

text \<open>
  The springs that exist are those of \<open>discoverAndSetupBones\<close>; their bounds are
  0.4, 0.5 or 0.15, and one pass of the coordinator leaves each of them within its
  bound.
\<close>

lemma discovered_maxDisplacement:
  assumes "sp \<in> set (discoverAndSetupBones q bs)"
  shows "maxDisplacement sp \<in> {0.4, 0.5, 0.15}"
  using assms
  by (auto simp add: discoverAndSetupBones_def Let_def newBoneSpring_def configOf_def orDefault_def)

lemma updateSprings_bounded:
  assumes "\<forall>sp \<in> set sps. 0 \<le> maxDisplacement sp"
  shows "\<forall>sp \<in> set (fst (updateSprings dt v a sps q)). vlength (displacement sp) \<le> maxDisplacement sp"
  using assms
proof (induction sps arbitrary: q)
  case Nil
  show ?case by simp
next
  case (Cons sp sps)
  have "vlength (displacement (fst (BoneSpring_update dt (Some v) (Some a) (sp, q))))
        \<le> maxDisplacement (fst (BoneSpring_update dt (Some v) (Some a) (sp, q)))"
    using update_bounded [of "(sp, q)" dt "Some v" "Some a"] Cons.prems
    by (simp add: update_maxDisplacement)
  then show ?case using Cons by (simp add: Let_def)
qed

subsection \<open>C1: rounding to doubles\<close>


lemma roundEven_eqI:
  assumes "of_int m - 1 / 2 < r" and "r < of_int m + 1 / 2"
  shows "roundEven r = m"
proof -
  have "\<lfloor>r\<rfloor> = m \<or> \<lfloor>r\<rfloor> = m - 1" using assms by linarith
  then show ?thesis
    using assms unfolding roundEven_def Let_def by (auto; linarith)
qed

lemma roundEven_int: "roundEven (of_int m) = m"
  by (rule roundEven_eqI) simp_all


lemma fl_eqI:
  assumes "q = 2 powr of_int k" and "2 ^ 52 * q \<le> \<bar>x\<bar>" and "\<bar>x\<bar> < 2 ^ 53 * q"
    and "roundEven (x / q) = m"
  shows "fl x = of_int m * q"
proof -
  have qpos: "0 < q" by (simp add: assms(1))
  have x0: "x \<noteq> 0" using assms(2) qpos by auto
  have a: "2 powr (of_int (k + 52)) \<le> \<bar>x\<bar>"
    using assms(2) by (simp add: assms(1) powr_add powr_realpow [symmetric] mult.commute)
  have b: "\<bar>x\<bar> < 2 powr (of_int (k + 52) + 1)"
    using assms(3) by (simp add: assms(1) powr_add powr_realpow [symmetric] mult.commute)
  have "of_int (k + 52) \<le> log 2 \<bar>x\<bar>"
    using a x0 by (subst le_log_iff) simp_all
  moreover have "log 2 \<bar>x\<bar> < of_int (k + 52) + 1"
    using b x0 by (subst log_less_iff) simp_all
  ultimately have "\<lfloor>log 2 \<bar>x\<bar>\<rfloor> = k + 52"
    by (subst floor_eq_iff) simp
  then have "2 powr (of_int \<lfloor>log 2 \<bar>x\<bar>\<rfloor> - 52) = q"
    by (simp add: assms(1))
  then show ?thesis
    using x0 assms(4) by (simp add: fl_def Let_def)
qed

lemma pow2_pos: "(2::real) ^ n = 2 powr of_int (int n)"
  by (simp add: powr_realpow)



lemma fl_large:
  assumes "2 ^ 52 * 2 ^ n \<le> \<bar>x\<bar>" and "\<bar>x\<bar> < 2 ^ 53 * 2 ^ n" and "roundEven (x / 2 ^ n) = m"
  shows "fl x = of_int m * 2 ^ n"
  by (rule fl_eqI [OF pow2_pos]) (use assms in simp_all)

subsection \<open>C1: the error of the rounded operations\<close>










subsection \<open>C1: the bound that the rounded clamp keeps\<close>








subsection \<open>C1: one clamped step, evaluated in doubles\<close>





































subsection \<open>C1: the displacement bound in doubles\<close>






subsection \<open>C3: invalid time steps\<close>

lemma hair_step_fallback:
  "displacement (fst (BoneSpring_update 0.016 (Some (vec3 1 0 0)) None
      (newBoneSpring (quaternions restModel) 4 HAIR (configOf HAIR), quaternions restModel)))
   = vec3 (- 0.000128) 0 0"
  by (simp add: BoneSpring_update_def Let_def newBoneSpring_def configOf_def orDefault_def
      spring_consts vector_defs vlength_x)

lemma hair_step_sixtieth:
  "displacement (fst (BoneSpring_update (1/60) (Some (vec3 1 0 0)) None
      (newBoneSpring (quaternions restModel) 4 HAIR (configOf HAIR), quaternions restModel)))
   = vec3 (- (1 / 7200)) 0 0"
  by (simp add: BoneSpring_update_def Let_def newBoneSpring_def configOf_def orDefault_def
      spring_consts vector_defs vlength_x)

text \<open>
  The claim as stated fails twice at a time step of 0: the spring does not behave as
  it does for a step of 1/60, and the procedural layer does not behave as it does for
  a step of 1/60 either.
\<close>

theorem fallback_counterexample:
  "BoneSpring_update 0 (Some (vec3 1 0 0)) None
      (newBoneSpring (quaternions restModel) 4 HAIR (configOf HAIR), quaternions restModel)
   \<noteq> BoneSpring_update (1/60) (Some (vec3 1 0 0)) None
      (newBoneSpring (quaternions restModel) 4 HAIR (configOf HAIR), quaternions restModel) \<and>
   applyProceduralOffsets 0 0 (restModel\<lparr>rotationY := 1\<rparr>, riggedController)
   \<noteq> applyProceduralOffsets 0 (1/60) (restModel\<lparr>rotationY := 1\<rparr>, riggedController)"
proof -
  let ?st = "(newBoneSpring (quaternions restModel) 4 HAIR (configOf HAIR), quaternions restModel)"
  have z: "BoneSpring_update 0 (Some (vec3 1 0 0)) None ?st = BoneSpring_update 0.016 (Some (vec3 1 0 0)) None ?st"
    by (simp add: BoneSpring_update_def Let_def spring_consts)
  have "displacement (fst (BoneSpring_update 0.016 (Some (vec3 1 0 0)) None ?st))
      \<noteq> displacement (fst (BoneSpring_update (1/60) (Some (vec3 1 0 0)) None ?st))"
    unfolding hair_step_fallback hair_step_sixtieth by (simp add: vec3_def)
  then have a: "BoneSpring_update 0 (Some (vec3 1 0 0)) None ?st
      \<noteq> BoneSpring_update (1/60) (Some (vec3 1 0 0)) None ?st"
    unfolding z by metis
  have "previousRotation (snd (applyProceduralOffsets 0 0 (restModel\<lparr>rotationY := 1\<rparr>, riggedController)))
      \<noteq> previousRotation (snd (applyProceduralOffsets 0 (1/60) (restModel\<lparr>rotationY := 1\<rparr>, riggedController)))"
    by (simp add: applyProceduralOffsets_def Let_def scene_defs)
  then have b: "applyProceduralOffsets 0 0 (restModel\<lparr>rotationY := 1\<rparr>, riggedController)
   \<noteq> applyProceduralOffsets 0 (1/60) (restModel\<lparr>rotationY := 1\<rparr>, riggedController)"
    by metis
  show ?thesis using a b by simp
qed

text \<open>
  C3, amended. For every time step that is 0, negative or greater than 0.1, the spring
  unit and the coordinator's kinematics derivation behave exactly as for a step of
  0.016 (not 1/60), so no division by zero occurs in them, and the procedural offset
  layer substitutes nothing: it returns at once and leaves the model and the
  controller as they were.
\<close>

theorem fallback_step:
  assumes "dt \<le> 0 \<or> dt > 0.1"
  shows "BoneSpring_update dt v a st = BoneSpring_update 0.016 v a st \<and>
         updateCharacterMotion dt model sm = updateCharacterMotion 0.016 model sm \<and>
         applyProceduralOffsets speed dt pst = pst"
  using assms
  by (auto simp add: BoneSpring_update_def updateCharacterMotion_def applyProceduralOffsets_def
      Let_def spring_consts)

theorem fallback_step_witness:
  "BoneSpring_update 0 (Some (vec3 1 0 0)) None
      (newBoneSpring (quaternions restModel) 4 HAIR (configOf HAIR), quaternions restModel)
   = BoneSpring_update 0.016 (Some (vec3 1 0 0)) None
      (newBoneSpring (quaternions restModel) 4 HAIR (configOf HAIR), quaternions restModel) \<and>
   updateCharacterMotion (-1) restModel (stillMotion []) =
     updateCharacterMotion 0.016 restModel (stillMotion []) \<and>
   applyProceduralOffsets 0 0.5 (restModel\<lparr>rotationY := 1\<rparr>, riggedController) =
     (restModel\<lparr>rotationY := 1\<rparr>, riggedController)"
  using fallback_step [of 0 "Some (vec3 1 0 0)" None
      "(newBoneSpring (quaternions restModel) 4 HAIR (configOf HAIR), quaternions restModel)"]
    fallback_step [of "-1" _ _ _ restModel "stillMotion []"]
    fallback_step [of "0.5" _ _ _ _ _ 0 "(restModel\<lparr>rotationY := 1\<rparr>, riggedController)"]
  by simp

subsection \<open>C5: the playback rate\<close>

lemma rate_after_update:
  assumes mx: "mixer (snd st) = Some m0"
    and tgt: "currentState (snd (updateFromSpeed speed dt st)) = fst (targetOfSpeed speed)"
    and act: "currentAction (snd (updateFromSpeed speed dt st)) = Some c"
    and m: "mixer (snd (updateFromSpeed speed dt st)) = Some m"
    and a: "actions m c = Some a"
  shows "timeScale a = snd (targetOfSpeed speed)"
proof -
  note U = updateFromSpeed_controller [OF mx, of speed dt]
  let ?ac1 = "selected speed (snd st)"
  obtain m1 where m1: "mixer ?ac1 = Some m1"
    using mixer_selected [OF mx] by blast
  have mm: "m = fst (Mixer_update dt (m1, quaternions (fst st)))"
    using U m m1 by simp
  have s1: "currentState ?ac1 = fst (targetOfSpeed speed)" using U tgt by simp
  have a1: "currentAction ?ac1 = Some c" using U act by simp
  have "timeScaleOf m1 c = Some (snd (targetOfSpeed speed)) \<or> actions m1 c = None"
  proof (cases "currentState (snd st) = fst (targetOfSpeed speed)")
    case True
    then show ?thesis
      using a1 m1 mx
      by (cases "actions m0 c")
         (auto simp: timeScaleOf_def split: option.splits
           simp: setEffectiveTimeScale_def onAction_def)
  next
    case False
    show ?thesis
    proof (cases "targetClipOf (snd st) (fst (targetOfSpeed speed))")
      case None
      then show ?thesis using False s1 by (simp add: transitionToState_def)
    next
      case (Some tc)
      then show ?thesis
        using False a1 m1
          playAnimation_sets_rate [OF mx, of tc "fst (targetOfSpeed speed)"
            "snd (targetOfSpeed speed)"]
        by (auto simp add: transitionToState_def)
    qed
  qed
  moreover have "timeScaleOf m c = timeScaleOf m1 c"
    unfolding mm by (rule timeScaleOf_Mixer_update)
  moreover have "actions m1 c \<noteq> None"
    using a mm by (auto simp: Mixer_update_def Let_def)
  ultimately show ?thesis using a by (auto simp add: timeScaleOf_def)
qed

lemma rate_of_speed:
  "(fst (targetOfSpeed s) = WALK \<longrightarrow> snd (targetOfSpeed s) = clamp (s / 2.0) 0.8 1.3) \<and>
   (fst (targetOfSpeed s) = RUN \<longrightarrow> snd (targetOfSpeed s) = min 1.5 (s / 4.0)) \<and>
   (fst (targetOfSpeed s) = IDLE \<longrightarrow> snd (targetOfSpeed s) = 1.0)"
  by (simp add: targetOfSpeed_def clamp_def anim_consts)

lemma run_rate_positive: "fst (targetOfSpeed s) = RUN \<Longrightarrow> 4 < s"
  by (simp add: targetOfSpeed_def anim_consts split: if_splits)

text \<open>
  C5. Whenever a frame with a mixer ends in the state that the speed asks for and with
  a current action, the time scale of that action is: in Walk, the speed over 2.0
  clamped to the interval from 0.8 to 1.3, hence inside that interval; in Run, the
  smaller of 1.5 and the speed over 4.0, hence positive and at most 1.5; in Idle, 1.0.
\<close>

theorem playback_rate:
  assumes "mixer (snd st) = Some m0"
    and "currentState (snd (updateFromSpeed speed dt st)) = fst (targetOfSpeed speed)"
    and "currentAction (snd (updateFromSpeed speed dt st)) = Some c"
    and "mixer (snd (updateFromSpeed speed dt st)) = Some m"
    and "actions m c = Some a"
  shows "(fst (targetOfSpeed speed) = WALK \<longrightarrow>
            timeScale a = clamp (speed / 2.0) 0.8 1.3 \<and> 0.8 \<le> timeScale a \<and> timeScale a \<le> 1.3) \<and>
         (fst (targetOfSpeed speed) = RUN \<longrightarrow>
            timeScale a = min 1.5 (speed / 4.0) \<and> 0 < timeScale a \<and> timeScale a \<le> 1.5) \<and>
         (fst (targetOfSpeed speed) = IDLE \<longrightarrow> timeScale a = 1.0)"
proof -
  have ts: "timeScale a = snd (targetOfSpeed speed)"
    using assms by (rule rate_after_update)
  show ?thesis
    using rate_of_speed [of speed] run_rate_positive [of speed]
    unfolding ts by (auto simp: clamp_def)
qed

lemma walk_frame:
  "currentState (snd (updateFromSpeed 2 (1/60) (restModel, plainController))) = WALK \<and>
   currentAction (snd (updateFromSpeed 2 (1/60) (restModel, plainController))) = Some ''Walk'' \<and>
   (\<exists>m a. mixer (snd (updateFromSpeed 2 (1/60) (restModel, plainController))) = Some m \<and>
      actions m ''Walk'' = Some a)"
  by (simp add: updateFromSpeed_def tgt2 plainController_def transitionToState_def targetClipOf_def
      orElse_def playAnimation_def Let_def mixer_defs emptyMixer_def hasSecondaryMotion_def
      stillMotion_def applyProceduralOffsets_def)

lemma run_frame:
  "currentState (snd (updateFromSpeed 5 (1/60) (restModel, plainController))) = RUN \<and>
   currentAction (snd (updateFromSpeed 5 (1/60) (restModel, plainController))) = Some ''Walk'' \<and>
   (\<exists>m a. mixer (snd (updateFromSpeed 5 (1/60) (restModel, plainController))) = Some m \<and>
      actions m ''Walk'' = Some a)"
  by (simp add: updateFromSpeed_def tgt5 plainController_def transitionToState_def targetClipOf_def
      orElse_def playAnimation_def Let_def mixer_defs emptyMixer_def hasSecondaryMotion_def
      stillMotion_def applyProceduralOffsets_def)

lemma idle_frame:
  "currentState (snd (updateFromSpeed 0 (1/60) (restModel, walkingController))) = IDLE \<and>
   currentAction (snd (updateFromSpeed 0 (1/60) (restModel, walkingController))) = Some ''Idle'' \<and>
   (\<exists>m a. mixer (snd (updateFromSpeed 0 (1/60) (restModel, walkingController))) = Some m \<and>
      actions m ''Idle'' = Some a)"
  by (simp add: updateFromSpeed_def tgt0 walkingController_def plainController_def
      transitionToState_def targetClipOf_def
      orElse_def playAnimation_def Let_def mixer_defs emptyMixer_def hasSecondaryMotion_def
      stillMotion_def applyProceduralOffsets_def)

theorem playback_rate_witness:
  "(\<exists>m a. mixer (snd (updateFromSpeed 2 (1/60) (restModel, plainController))) = Some m \<and>
     actions m ''Walk'' = Some a \<and> fst (targetOfSpeed 2) = WALK \<and>
     timeScale a = clamp (2 / 2.0) 0.8 1.3 \<and> 0.8 \<le> timeScale a \<and> timeScale a \<le> 1.3) \<and>
   (\<exists>m a. mixer (snd (updateFromSpeed 5 (1/60) (restModel, plainController))) = Some m \<and>
     actions m ''Walk'' = Some a \<and> fst (targetOfSpeed 5) = RUN \<and>
     timeScale a = min 1.5 (5 / 4.0) \<and> 0 < timeScale a \<and> timeScale a \<le> 1.5) \<and>
   (\<exists>m a. mixer (snd (updateFromSpeed 0 (1/60) (restModel, walkingController))) = Some m \<and>
     actions m ''Idle'' = Some a \<and> fst (targetOfSpeed 0) = IDLE \<and> timeScale a = 1.0)"
proof -
  have mx: "mixer (snd (restModel, plainController)) = Some emptyMixer"
    by (simp add: plainController_def)
  have mw: "mixer (snd (restModel, walkingController)) =
      Some (emptyMixer\<lparr>actions := [''Walk'' \<mapsto> newAction\<lparr>scheduled := True\<rparr>]\<rparr>)"
    by (simp add: walkingController_def plainController_def)
  obtain m2 a2 where 2: "mixer (snd (updateFromSpeed 2 (1/60) (restModel, plainController))) = Some m2"
      "actions m2 ''Walk'' = Some a2"
    using walk_frame by blast
  obtain m5 a5 where 5: "mixer (snd (updateFromSpeed 5 (1/60) (restModel, plainController))) = Some m5"
      "actions m5 ''Walk'' = Some a5"
    using run_frame by blast
  obtain m0 a0 where 0: "mixer (snd (updateFromSpeed 0 (1/60) (restModel, walkingController))) = Some m0"
      "actions m0 ''Idle'' = Some a0"
    using idle_frame by blast
  have w: "(fst (targetOfSpeed 2) = WALK \<longrightarrow>
            timeScale a2 = clamp (2 / 2.0) 0.8 1.3 \<and> 0.8 \<le> timeScale a2 \<and> timeScale a2 \<le> 1.3)"
    using playback_rate [OF mx _ _ 2] walk_frame by (simp add: tgt2)
  have r: "(fst (targetOfSpeed 5) = RUN \<longrightarrow>
            timeScale a5 = min 1.5 (5 / 4.0) \<and> 0 < timeScale a5 \<and> timeScale a5 \<le> 1.5)"
    using playback_rate [OF mx _ _ 5] run_frame by (simp add: tgt5)
  have i: "(fst (targetOfSpeed 0) = IDLE \<longrightarrow> timeScale a0 = 1.0)"
    using playback_rate [OF mw _ _ 0] idle_frame by (simp add: tgt0)
  show ?thesis
    using w r i 2 5 0 by (simp add: tgt2 tgt5 tgt0)
qed

subsection \<open>C6: the heading error\<close>

lemma trunc_small: "- 1 < r \<Longrightarrow> r < 1 \<Longrightarrow> trunc r = 0"
  unfolding trunc_def by (auto simp: floor_eq_iff ceiling_eq_iff)

lemma jsRem_small: "0 < b \<Longrightarrow> - b < a \<Longrightarrow> a < b \<Longrightarrow> jsRem a b = a"
  by (simp add: jsRem_def trunc_small field_simps)

lemma shortestAngle_3: "shortestAngle 3 (- (pi / 2)) = - (pi / 2) - 3"
proof -
  have "jsRem (- (pi / 2) - 3 + pi) (pi * 2) = - (pi / 2) - 3 + pi"
    using pi_ge_two pi_less_4 by (intro jsRem_small) simp_all
  then show ?thesis by (simp add: shortestAngle_def Let_def)
qed

lemma move_left:
  "normalize (addScaledVector (addScaledVector (vec3 0 0 0)
       (crossVectors (normalize ((vec3 0 0 1)\<lparr>vy := 0\<rparr>)) (vec3 0 1 0)) 1)
       (normalize ((vec3 0 0 1)\<lparr>vy := 0\<rparr>)) (- 0)) = vec3 (- 1) 0 0"
  by (simp add: normalize_def vector_defs vlength_def)

text \<open>
  C6 fails on the code. The remainder operator keeps the sign of its dividend, so for
  a heading error whose shifted value \<open>target - current + pi\<close> is negative the
  result of \<open>shortestAngle\<close> lies below \<open>- pi\<close>, although its comment promises the
  range from \<open>- pi\<close> to \<open>pi\<close>. A character facing the heading 3 that is asked to
  face \<open>- pi / 2\<close> gets the error \<open>- pi / 2 - 3\<close> and turns by the full rate cap
  away from the short way round.
\<close>

theorem heading_turns_the_long_way:
  "shortestAngle 3 (- (pi / 2)) = - (pi / 2) - 3 \<and>
   shortestAngle 3 (- (pi / 2)) < - pi \<and>
   targetRotation (snd (CharacterController_update (1/60) (1, 0) False (vec3 0 0 1) turnedCharacter))
     = - (pi / 2) \<and>
   currentRotation (snd (CharacterController_update (1/60) (1, 0) False (vec3 0 0 1) turnedCharacter))
     = 3 - 1 / 6"
proof -
  have a: "atan2 (- 1) 0 = - (pi / 2)" by (simp add: atan2_def)
  show ?thesis
    using pi_ge_two pi_less_4
    apply (simp add: shortestAngle_3)
    apply (simp add: CharacterController_update_def Let_def turnedCharacter_def
        standingCharacter_def restModel_def move_left [simplified] move_consts)
    apply (simp add: vec3_def a shortestAngle_3 clamp_def)
    done
qed

text \<open>For a shifted error that is not negative the result is in range, lower end included.\<close>

lemma jsRem_nonneg:
  assumes "0 \<le> a" "0 < b"
  shows "0 \<le> jsRem a b \<and> jsRem a b < b"
proof -
  have q: "0 \<le> a / b" using assms by simp
  have 1: "of_int \<lfloor>a / b\<rfloor> \<le> a / b" by simp
  have 2: "a / b < of_int \<lfloor>a / b\<rfloor> + 1" by linarith
  have "b * of_int \<lfloor>a / b\<rfloor> \<le> b * (a / b)"
    using 1 assms(2) by (intro mult_left_mono) simp_all
  then have "b * of_int \<lfloor>a / b\<rfloor> \<le> a"
    using assms(2) by simp
  moreover have "b * (a / b) < b * (of_int \<lfloor>a / b\<rfloor> + 1)"
    using 2 assms(2) by (intro mult_strict_left_mono) simp_all
  then have "a < b * (of_int \<lfloor>a / b\<rfloor> + 1)"
    using assms(2) by simp
  ultimately show ?thesis
    using q by (simp add: jsRem_def trunc_def algebra_simps)
qed

lemma shortestAngle_range:
  assumes "0 \<le> target - current + pi"
  shows "- pi \<le> shortestAngle current target \<and> shortestAngle current target < pi"
  using jsRem_nonneg [OF assms, of "pi * 2"]
  by (simp add: shortestAngle_def Let_def)

text \<open>What does hold of the turn: for a time step that is not negative, it is capped.\<close>

lemma heading_change_capped:
  assumes "0 \<le> dt"
  shows "\<bar>currentRotation (snd (CharacterController_update dt input sprint dir st))
           - currentRotation (snd st)\<bar> \<le> 10 * dt"
  using assms
  by (auto simp add: CharacterController_update_def Let_def clamp_def move_consts)

subsection \<open>C7: the procedural offsets\<close>

text \<open>The key bones that \<open>findKeyBones\<close> assigns are pairwise distinct.\<close>

lemma targets_assignRole:
  assumes "set (proceduralTargets kb) \<subseteq> S" and "distinct (proceduralTargets kb)" and "fst bn \<notin> S"
  shows "set (proceduralTargets (assignRole kb bn)) \<subseteq> insert (fst bn) S \<and>
         distinct (proceduralTargets (assignRole kb bn))"
  using assms
  by (cases "spine kb"; cases "head kb"; cases "leftShoulder kb"; cases "rightShoulder kb";
      simp add: assignRole_def Let_def proceduralTargets_def; blast)

lemma targets_findKeyBones:
  assumes "set (proceduralTargets kb) \<subseteq> S" and "distinct (proceduralTargets kb)"
    and "distinct (map fst bs)" and "set (map fst bs) \<inter> S = {}"
  shows "distinct (proceduralTargets (findKeyBones kb bs))"
  using assms
proof (induction bs arbitrary: kb S)
  case Nil
  then show ?case by (simp add: findKeyBones_def)
next
  case (Cons bn bs)
  have n: "fst bn \<notin> S" using Cons.prems(4) by auto
  note A = targets_assignRole [OF Cons.prems(1,2) n]
  have d: "distinct (map fst bs)" using Cons.prems(3) by simp
  have i: "set (map fst bs) \<inter> insert (fst bn) S = {}"
    using Cons.prems(3,4) by auto
  have "distinct (proceduralTargets (findKeyBones (assignRole kb bn) bs))"
    using Cons.IH [of "assignRole kb bn" "insert (fst bn) S"] A d i by blast
  then show ?case by (simp add: findKeyBones_def)
qed

lemma key_bones_distinct:
  "distinct (map fst bs) \<Longrightarrow> distinct (proceduralTargets (findKeyBones noBones bs))"
  using targets_findKeyBones [of noBones "{}" bs]
  by (simp add: proceduralTargets_def noBones_def)

lemma euler_y: "setFromEuler 0 y 0 = setFromAxisAngle (vec3 0 1 0) y"
  by (simp add: setFromEuler_def setFromAxisAngle_def Let_def vec3_def)

lemma euler_z: "setFromEuler 0 0 z = setFromAxisAngle (vec3 0 0 1) z"
  by (simp add: setFromEuler_def setFromAxisAngle_def Let_def vec3_def)

text \<open>
  C7, amended. Let the layer run (a skeleton exists and the time step is positive and
  at most 0.1), and let \<open>rv\<close> be the angular velocity it computes. If the magnitude
  of \<open>rv\<close> exceeds 0.1, the spine (if present) is post-multiplied by a rotation about
  the Y axis by \<open>- rv * 0.1 * dt\<close>, the head (if present) by a rotation about the Y
  axis by \<open>- rv * 0.15 * dt\<close>, and, when both shoulders are present, the left
  shoulder by a rotation about the Z axis by \<open>rv * 0.08 * dt\<close> and the right one by
  the opposite rotation about the Z axis. If the magnitude is at most 0.1, no bone
  changes. No other bone is ever written, and a shoulder whose counterpart is missing
  is left as it was. Apart from the bone rotations the layer changes only its own
  record of the turn: it stores \<open>rv\<close> as the rotation velocity and the model's
  current heading as the previous rotation.
\<close>

theorem procedural_offsets:
  assumes "skeleton (snd st)" and "0 < dt" and "dt \<le> 0.1"
    and "distinct (proceduralTargets (bones (snd st)))"
    and "rv = (rotationY (fst st) - previousRotation (snd st)) / dt"
    and "q = quaternions (fst st)"
    and "q' = quaternions (fst (applyProceduralOffsets speed dt st))"
  shows "(\<bar>rv\<bar> > 0.1 \<longrightarrow>
           (\<forall>b. spine (bones (snd st)) = Some b \<longrightarrow>
              q' b = multiply (q b) (setFromAxisAngle (vec3 0 1 0) (- rv * 0.1 * dt))) \<and>
           (\<forall>b. head (bones (snd st)) = Some b \<longrightarrow>
              q' b = multiply (q b) (setFromAxisAngle (vec3 0 1 0) (- rv * 0.15 * dt))) \<and>
           (\<forall>l r. leftShoulder (bones (snd st)) = Some l \<and> rightShoulder (bones (snd st)) = Some r \<longrightarrow>
              q' l = multiply (q l) (setFromAxisAngle (vec3 0 0 1) (rv * 0.08 * dt)) \<and>
              q' r = multiply (q r) (setFromAxisAngle (vec3 0 0 1) (- (rv * 0.08 * dt))))) \<and>
         (\<bar>rv\<bar> \<le> 0.1 \<longrightarrow> q' = q) \<and>
         (\<forall>b. b \<notin> set (proceduralTargets (bones (snd st))) \<longrightarrow> q' b = q b) \<and>
         (\<forall>l. leftShoulder (bones (snd st)) = Some l \<and> rightShoulder (bones (snd st)) = None \<longrightarrow>
            q' l = q l) \<and>
         (\<forall>r. rightShoulder (bones (snd st)) = Some r \<and> leftShoulder (bones (snd st)) = None \<longrightarrow>
            q' r = q r) \<and>
         applyProceduralOffsets speed dt st =
           ((fst st)\<lparr>quaternions := q'\<rparr>,
            (snd st)\<lparr>rotationVelocity := rv, previousRotation := rotationY (fst st)\<rparr>)"
  using assms
  by (cases "spine (bones (snd st))"; cases "head (bones (snd st))";
      cases "leftShoulder (bones (snd st))"; cases "rightShoulder (bones (snd st))";
      simp add: applyProceduralOffsets_def Let_def rotateBone_def proceduralTargets_def
        euler_y euler_z anim_consts; force)

lemma rigged_targets: "proceduralTargets (bones riggedController) = [0, 1, 2, 3]"
  by (simp add: proceduralTargets_def riggedController_def riggedBones_def noBones_def
      plainController_def)

lemma rigged_bones:
  "spine (bones riggedController) = Some 0" "head (bones riggedController) = Some 1"
  "leftShoulder (bones riggedController) = Some 2" "rightShoulder (bones riggedController) = Some 3"
  "skeleton riggedController" "previousRotation riggedController = 0"
  by (simp_all add: riggedController_def riggedBones_def noBones_def plainController_def)

lemma one_shoulder_bones:
  "spine (bones oneShoulderController) = Some 0" "head (bones oneShoulderController) = Some 1"
  "leftShoulder (bones oneShoulderController) = Some 2"
  "rightShoulder (bones oneShoulderController) = None"
  "skeleton oneShoulderController" "previousRotation oneShoulderController = 0"
  "proceduralTargets (bones oneShoulderController) = [0, 1, 2]"
  by (simp_all add: oneShoulderController_def riggedController_def riggedBones_def noBones_def
      plainController_def proceduralTargets_def)

theorem procedural_offsets_witness:
  "quaternions (fst (applyProceduralOffsets 0 (1/10) (restModel\<lparr>rotationY := 1/10\<rparr>, riggedController))) 0
     = multiply identityQ (setFromAxisAngle (vec3 0 1 0) (- 0.01)) \<and>
   quaternions (fst (applyProceduralOffsets 0 (1/10) (restModel\<lparr>rotationY := 1/10\<rparr>, riggedController))) 1
     = multiply identityQ (setFromAxisAngle (vec3 0 1 0) (- 0.015)) \<and>
   quaternions (fst (applyProceduralOffsets 0 (1/10) (restModel\<lparr>rotationY := 1/10\<rparr>, riggedController))) 2
     = multiply identityQ (setFromAxisAngle (vec3 0 0 1) 0.008) \<and>
   quaternions (fst (applyProceduralOffsets 0 (1/10) (restModel\<lparr>rotationY := 1/10\<rparr>, riggedController))) 3
     = multiply identityQ (setFromAxisAngle (vec3 0 0 1) (- 0.008)) \<and>
   quaternions (fst (applyProceduralOffsets 0 (1/10) (restModel\<lparr>rotationY := 1/10\<rparr>, riggedController))) 4
     = identityQ \<and>
   quaternions (fst (applyProceduralOffsets 0 (1/10) (restModel\<lparr>rotationY := 1/100\<rparr>, riggedController)))
     = quaternions restModel \<and>
   quaternions (fst (applyProceduralOffsets 0 (1/10) (restModel\<lparr>rotationY := 1/10\<rparr>, oneShoulderController))) 2
     = identityQ \<and>
   previousRotation (snd (applyProceduralOffsets 0 (1/10) (restModel\<lparr>rotationY := 1/10\<rparr>, riggedController)))
     = 1/10 \<and>
   rotationVelocity (snd (applyProceduralOffsets 0 (1/10) (restModel\<lparr>rotationY := 1/10\<rparr>, riggedController)))
     = 1"
proof -
  let ?st = "(restModel\<lparr>rotationY := 1/10\<rparr>, riggedController)"
  let ?st2 = "(restModel\<lparr>rotationY := 1/100\<rparr>, riggedController)"
  let ?st3 = "(restModel\<lparr>rotationY := 1/10\<rparr>, oneShoulderController)"
  have a: "skeleton (snd ?st)" "distinct (proceduralTargets (bones (snd ?st)))"
    "1 = (rotationY (fst ?st) - previousRotation (snd ?st)) / (1/10)"
    "quaternions restModel = quaternions (fst ?st)"
    by (simp_all add: rigged_bones rigged_targets)
  have b: "skeleton (snd ?st2)" "distinct (proceduralTargets (bones (snd ?st2)))"
    "1/10 = (rotationY (fst ?st2) - previousRotation (snd ?st2)) / (1/10)"
    "quaternions restModel = quaternions (fst ?st2)"
    by (simp_all add: rigged_bones rigged_targets)
  have c: "skeleton (snd ?st3)" "distinct (proceduralTargets (bones (snd ?st3)))"
    "1 = (rotationY (fst ?st3) - previousRotation (snd ?st3)) / (1/10)"
    "quaternions restModel = quaternions (fst ?st3)"
    by (simp_all add: one_shoulder_bones)
  have q: "quaternions restModel b = identityQ" for b
    by (simp add: restModel_def)
  have A: "quaternions (fst (applyProceduralOffsets 0 (1/10) ?st)) 0
     = multiply identityQ (setFromAxisAngle (vec3 0 1 0) (- 0.01)) \<and>
   quaternions (fst (applyProceduralOffsets 0 (1/10) ?st)) 1
     = multiply identityQ (setFromAxisAngle (vec3 0 1 0) (- 0.015)) \<and>
   quaternions (fst (applyProceduralOffsets 0 (1/10) ?st)) 2
     = multiply identityQ (setFromAxisAngle (vec3 0 0 1) 0.008) \<and>
   quaternions (fst (applyProceduralOffsets 0 (1/10) ?st)) 3
     = multiply identityQ (setFromAxisAngle (vec3 0 0 1) (- 0.008)) \<and>
   quaternions (fst (applyProceduralOffsets 0 (1/10) ?st)) 4 = identityQ"
    using procedural_offsets [OF a(1) _ _ a(2) a(3) a(4) refl, of 0]
    by (simp add: rigged_bones rigged_targets q)
  have A': "previousRotation (snd (applyProceduralOffsets 0 (1/10) ?st)) = 1/10 \<and>
    rotationVelocity (snd (applyProceduralOffsets 0 (1/10) ?st)) = 1"
  proof -
    have "applyProceduralOffsets 0 (1/10) ?st =
           ((fst ?st)\<lparr>quaternions := quaternions (fst (applyProceduralOffsets 0 (1/10) ?st))\<rparr>,
            (snd ?st)\<lparr>rotationVelocity := 1, previousRotation := rotationY (fst ?st)\<rparr>)"
      using procedural_offsets [OF a(1) _ _ a(2) a(3) a(4) refl, of 0] by simp
    then have "snd (applyProceduralOffsets 0 (1/10) ?st) =
        (snd ?st)\<lparr>rotationVelocity := 1, previousRotation := rotationY (fst ?st)\<rparr>"
      by (metis snd_conv)
    then show ?thesis by simp
  qed
  have B: "quaternions (fst (applyProceduralOffsets 0 (1/10) ?st2)) = quaternions restModel"
    using procedural_offsets [OF b(1) _ _ b(2) b(3) b(4) refl, of 0]
    by (simp add: rigged_bones rigged_targets q)
  have C: "quaternions (fst (applyProceduralOffsets 0 (1/10) ?st3)) 2 = identityQ"
    using procedural_offsets [OF c(1) _ _ c(2) c(3) c(4) refl, of 0]
    by (simp add: one_shoulder_bones q)
  show ?thesis using A A' B C by simp
qed

text \<open>
  The claim as stated fails for the shoulders: the left shoulder is turned about the Z
  axis, which is neither the rotation about the Y axis by the shoulder amount nor the
  one by its opposite.
\<close>

lemma sin_small: "sin (0.004 :: real) \<noteq> 0"
proof -
  have "(0::real) < 0.004" "(0.004 :: real) < pi" using pi_ge_two by simp_all
  then have "0 < sin (0.004 :: real)" by (rule sin_gt_zero)
  then show ?thesis by simp
qed

theorem shoulder_axis_counterexample:
  "quaternions (fst (applyProceduralOffsets 0 (1/10) (restModel\<lparr>rotationY := 1/10\<rparr>, riggedController))) 2
     = multiply identityQ (setFromEuler 0 0 0.008) \<and>
   multiply identityQ (setFromEuler 0 0 0.008) \<noteq> multiply identityQ (setFromEuler 0 0.008 0) \<and>
   multiply identityQ (setFromEuler 0 0 0.008) \<noteq> multiply identityQ (setFromEuler 0 (- 0.008) 0)"
proof -
  have z: "qz (multiply identityQ (setFromEuler 0 0 0.008)) = sin 0.004"
    by (simp add: multiply_def identityQ_def setFromEuler_def quat_def Let_def)
  have y: "qz (multiply identityQ (setFromEuler 0 y 0)) = 0" for y
    by (simp add: multiply_def identityQ_def setFromEuler_def quat_def Let_def)
  have 1: "multiply identityQ (setFromEuler 0 0 0.008) \<noteq> multiply identityQ (setFromEuler 0 y 0)" for y
    using z y [of y] sin_small by metis
  have 2: "quaternions (fst (applyProceduralOffsets 0 (1/10) (restModel\<lparr>rotationY := 1/10\<rparr>, riggedController))) 2
     = multiply identityQ (setFromEuler 0 0 0.008)"
    by (simp add: applyProceduralOffsets_def Let_def rigged_bones rotateBone_def restModel_def
        anim_consts)
  show ?thesis using 1 2 by simp
qed

subsection \<open>C8: a transition to the action that is already current\<close>

lemma configure_existing:
  assumes "actions m c = Some a"
  shows "configureAction c speed (clipAction c m) =
         m\<lparr>actions := (actions m)(c \<mapsto> a\<lparr>loopRepeat := True, clampWhenFinished := False,
                                        timeScale := speed\<rparr>),
           calls := calls m @ [(c, SetLoopRepeat), (c, SetEffectiveTimeScale speed)]\<rparr>"
  using assms
  by (simp add: configureAction_def clipAction_def setLoopRepeat_def setEffectiveTimeScale_def
      onAction_def)

text \<open>
  C8. A transition whose clip resolves to the action that is already current triggers
  no crossfade: the only calls made on the mixer's actions are \<open>setLoop\<close> and
  \<open>setEffectiveTimeScale\<close> on that action (no \<open>fadeOut\<close>, \<open>reset\<close>,
  \<open>fadeIn\<close> or \<open>play\<close> on any action), the weight and the fade of every action
  are unchanged, and every action other than the current one is untouched.
\<close>

theorem same_action_no_crossfade:
  assumes "mixer ac = Some m"
    and "currentAction ac = Some c"
    and "actions m c = Some a"
    and "targetClipOf ac newState = Some c"
  shows "\<exists>m'. mixer (transitionToState newState speed ac) = Some m' \<and>
           calls m' = calls m @ [(c, SetLoopRepeat), (c, SetEffectiveTimeScale speed)] \<and>
           weightOf m' = weightOf m \<and>
           actions m' = (actions m)(c \<mapsto> a\<lparr>loopRepeat := True, clampWhenFinished := False,
                                            timeScale := speed\<rparr>) \<and>
           currentAction (transitionToState newState speed ac) = Some c \<and>
           currentState (transitionToState newState speed ac) = newState"
proof -
  have w: "weightOf (m\<lparr>actions := (actions m)(c \<mapsto> a\<lparr>loopRepeat := True, clampWhenFinished := False,
                                        timeScale := speed\<rparr>),
           calls := calls m @ [(c, SetLoopRepeat), (c, SetEffectiveTimeScale speed)]\<rparr>) = weightOf m"
    using assms(3) by (auto simp: weightOf_def fun_eq_iff)
  show ?thesis
    using assms w
    by (simp add: transitionToState_def playAnimation_def Let_def configure_existing)
qed

theorem same_action_no_crossfade_witness:
  "\<exists>m m'. mixer walkingController = Some m \<and>
     mixer (transitionToState WALK 1.2 walkingController) = Some m' \<and>
     calls m' = calls m @ [(''Walk'', SetLoopRepeat), (''Walk'', SetEffectiveTimeScale 1.2)] \<and>
     weightOf m' = weightOf m \<and>
     currentState (transitionToState WALK 1.2 walkingController) = WALK"
proof -
  let ?m = "emptyMixer\<lparr>actions := [''Walk'' \<mapsto> newAction\<lparr>scheduled := True\<rparr>]\<rparr>"
  have m: "mixer walkingController = Some ?m"
    by (simp add: walkingController_def plainController_def)
  have c: "currentAction walkingController = Some ''Walk''"
    by (simp add: walkingController_def plainController_def)
  have a: "actions ?m ''Walk'' = Some (newAction\<lparr>scheduled := True\<rparr>)"
    by simp
  have t: "targetClipOf walkingController WALK = Some ''Walk''"
    by (simp add: targetClipOf_def orElse_def walkingController_def plainController_def)
  show ?thesis
    using same_action_no_crossfade [OF m c a t, of "1.2"] m by auto
qed

subsection \<open>C9: accelerating to the walk speed\<close>





subsection \<open>C10: a target state without a clip\<close>

lemma transition_without_clip:
  "targetClipOf ac newState = None \<Longrightarrow>
   transitionToState newState speed ac = ac\<lparr>warnings := warnings ac @ [newState]\<rparr>"
  by (simp add: transitionToState_def)

lemma targetClipOf_cong:
  "animationClips ac' = animationClips ac \<Longrightarrow> targetClipOf ac' = targetClipOf ac"
  by (rule ext) (simp add: targetClipOf_def split: AnimationState.splits)

lemma frame_without_clip:
  assumes "targetClipOf (snd st) (fst (targetOfSpeed speed)) = None"
    and "mixer (snd st) = Some m"
    and "currentState (snd st) \<noteq> fst (targetOfSpeed speed)"
  shows "currentState (snd (updateFromSpeed speed dt st)) = currentState (snd st) \<and>
         currentAction (snd (updateFromSpeed speed dt st)) = currentAction (snd st) \<and>
         warnings (snd (updateFromSpeed speed dt st)) = warnings (snd st) @ [fst (targetOfSpeed speed)] \<and>
         animationClips (snd (updateFromSpeed speed dt st)) = animationClips (snd st) \<and>
         (\<exists>m'. mixer (snd (updateFromSpeed speed dt st)) = Some m')"
  using updateFromSpeed_controller [OF assms(2), of speed dt] assms
  by (simp add: transition_without_clip)

lemma frames_without_clip:
  assumes "targetClipOf (snd st) target = None"
    and "mixer (snd st) = Some m"
    and "currentState (snd st) \<noteq> target"
    and "\<forall>f \<in> set fs. fst (targetOfSpeed (fst f)) = target"
  shows "currentState (snd (speedFrames fs st)) = currentState (snd st) \<and>
         currentAction (snd (speedFrames fs st)) = currentAction (snd st) \<and>
         warnings (snd (speedFrames fs st)) = warnings (snd st) @ replicate (length fs) target"
  using assms
proof (induction fs arbitrary: st m)
  case Nil
  show ?case by simp
next
  case (Cons f fs)
  obtain speed dt pos rot where f: "f = (speed, dt, pos, rot)" by (cases f) auto
  let ?st0 = "((fst st)\<lparr>position := pos, rotationY := rot\<rparr>, snd st)"
  let ?st1 = "updateFromSpeed speed dt ?st0"
  have tg: "fst (targetOfSpeed speed) = target" using Cons.prems(4) f by simp
  have F: "currentState (snd ?st1) = currentState (snd st) \<and>
         currentAction (snd ?st1) = currentAction (snd st) \<and>
         warnings (snd ?st1) = warnings (snd st) @ [target] \<and>
         animationClips (snd ?st1) = animationClips (snd st) \<and>
         (\<exists>m'. mixer (snd ?st1) = Some m')"
    using frame_without_clip [of ?st0 speed m dt] Cons.prems(1,2,3) tg by simp
  then obtain m' where m': "mixer (snd ?st1) = Some m'" by blast
  have c1: "targetClipOf (snd ?st1) target = None"
    using F Cons.prems(1) targetClipOf_cong [of "snd ?st1" "snd st"] by simp
  have s1: "currentState (snd ?st1) \<noteq> target" using F Cons.prems(3) by simp
  have r: "\<forall>f \<in> set fs. fst (targetOfSpeed (fst f)) = target" using Cons.prems(4) by simp
  show ?case
    using Cons.IH [OF c1 m' s1 r] F
    by (simp add: f replicate_append_same)
qed

text \<open>
  C10. When neither the clip of a target state nor any clip of its fallback chain is
  present, a transition to that state changes nothing but the diagnostics: the current
  state and the current action keep their values. Hence, with a mixer and over any
  run of frames whose speeds all ask for that state (speeds above 4.0 for Run), the
  reported state stays at its old value, and the transition is attempted again in
  every frame: each frame adds one more warning for the target state.
\<close>

theorem no_clip_no_transition:
  assumes "targetClipOf (snd st) target = None"
    and "mixer (snd st) = Some m"
    and "currentState (snd st) \<noteq> target"
    and "\<forall>f \<in> set fs. fst (targetOfSpeed (fst f)) = target"
  shows "transitionToState target speed (snd st) = (snd st)\<lparr>warnings := warnings (snd st) @ [target]\<rparr> \<and>
         currentState (snd (speedFrames fs st)) = currentState (snd st) \<and>
         currentAction (snd (speedFrames fs st)) = currentAction (snd st) \<and>
         warnings (snd (speedFrames fs st)) = warnings (snd st) @ replicate (length fs) target"
  using transition_without_clip [OF assms(1)] frames_without_clip [OF assms] by simp

theorem no_clip_no_transition_witness:
  "transitionToState RUN 1.25 cliplessController = cliplessController\<lparr>warnings := [RUN]\<rparr> \<and>
   currentState (snd (speedFrames [(5, 1/60, vec3 0 0 0, 0), (5, 1/60, vec3 0 0 0.1, 0),
       (5, 1/60, vec3 0 0 0.2, 0)] (restModel, cliplessController))) = IDLE \<and>
   currentAction (snd (speedFrames [(5, 1/60, vec3 0 0 0, 0), (5, 1/60, vec3 0 0 0.1, 0),
       (5, 1/60, vec3 0 0 0.2, 0)] (restModel, cliplessController))) = None \<and>
   warnings (snd (speedFrames [(5, 1/60, vec3 0 0 0, 0), (5, 1/60, vec3 0 0 0.1, 0),
       (5, 1/60, vec3 0 0 0.2, 0)] (restModel, cliplessController))) = [RUN, RUN, RUN]"
proof -
  have 1: "targetClipOf (snd (restModel, cliplessController)) RUN = None"
    by (simp add: targetClipOf_def orElse_def cliplessController_def plainController_def)
  have 2: "mixer (snd (restModel, cliplessController)) = Some emptyMixer"
    by (simp add: cliplessController_def plainController_def)
  have 3: "currentState (snd (restModel, cliplessController)) \<noteq> RUN"
    by (simp add: cliplessController_def plainController_def)
  have 4: "\<forall>f \<in> set [(5, 1/60, vec3 0 0 0, 0), (5, 1/60, vec3 0 0 0.1, 0),
       (5, 1/60, vec3 0 0 0.2, 0 :: real)]. fst (targetOfSpeed (fst f)) = RUN"
    by (simp add: tgt5)
  show ?thesis
    using no_clip_no_transition [OF 1 2 3 4, of "1.25"]
    by (simp add: cliplessController_def plainController_def numeral_3_eq_3)
qed

subsection \<open>C4: when the rest reference is taken\<close>

lemma secondaryMotion_selected:
  "secondaryMotion (selected speed ac) = secondaryMotion ac"
  by (simp add: transitionToState_def playAnimation_def Let_def split: option.splits)

lemma updateFromSpeed_phases:
  assumes "mixer (snd st) = Some m0" and "mixer (selected speed (snd st)) = Some m1"
  shows "updateFromSpeed speed dt st =
     (let ac1 = selected speed (snd st);
          r = Mixer_update dt (m1, quaternions (fst st));
          mixed = ((fst st)\<lparr>quaternions := snd r\<rparr>, ac1\<lparr>mixer := Some (fst r)\<rparr>);
          notified = (if hasSecondaryMotion (secondaryMotion (snd st))
                      then (fst mixed,
                            (snd mixed)\<lparr>secondaryMotion :=
                               onAnimationUpdate (fst mixed) (secondaryMotion (snd st))\<rparr>)
                      else mixed);
          offset = applyProceduralOffsets speed dt notified
      in if hasSecondaryMotion (secondaryMotion (snd st))
         then secondaryUpdate dt offset else offset)"
proof -
  define ac1 where "ac1 = selected speed (snd st)"
  have m1: "mixer ac1 = Some m1" using assms(2) by (simp add: ac1_def)
  have sm: "secondaryMotion ac1 = secondaryMotion (snd st)"
    unfolding ac1_def by (rule secondaryMotion_selected)
  have h: "hasSecondaryMotion (onAnimationUpdate mo sm) = hasSecondaryMotion sm" for mo sm
    by (simp add: hasSecondaryMotion_def onAnimationUpdate_def)
  have "updateFromSpeed speed dt st =
     (let r = Mixer_update dt (m1, quaternions (fst st));
          mixed = ((fst st)\<lparr>quaternions := snd r\<rparr>, ac1\<lparr>mixer := Some (fst r)\<rparr>);
          notified = (if hasSecondaryMotion (secondaryMotion (snd st))
                      then (fst mixed,
                            (snd mixed)\<lparr>secondaryMotion :=
                               onAnimationUpdate (fst mixed) (secondaryMotion (snd st))\<rparr>)
                      else mixed);
          offset = applyProceduralOffsets speed dt notified
      in if hasSecondaryMotion (secondaryMotion (snd st))
         then secondaryUpdate dt offset else offset)"
    apply (simp only: updateFromSpeed_def Let_def)
    apply (simp only: ac1_def [symmetric])
    apply (simp add: assms(1) m1 sm applyProceduralOffsets_controller h)
    done
  then show ?thesis by (simp add: ac1_def Let_def)
qed

lemma update_keeps_rest:
  "originalRotation (fst (BoneSpring_update dt v a st)) = originalRotation (fst st) \<and>
   bone (fst (BoneSpring_update dt v a st)) = bone (fst st)"
  by (simp add: BoneSpring_update_def Let_def)

lemma updateSprings_keeps_rest:
  "map originalRotation (fst (updateSprings dt v a sps q)) = map originalRotation sps"
  by (induction sps arbitrary: q) (simp_all add: Let_def update_keeps_rest)

lemma secondaryUpdate_keeps_rest:
  "map originalRotation (springs (secondaryMotion (snd (secondaryUpdate dt st)))) =
   map originalRotation (springs (secondaryMotion (snd st)))"
  by (simp add: secondaryUpdate_def SecondaryMotion_update_def Let_def updateCharacterMotion_def
      updateSprings_keeps_rest)

lemma snapshot_before_offsets:
  assumes "mixer (snd st) = Some m0" and "mixer (selected speed (snd st)) = Some m1"
    and "springs (secondaryMotion (snd st)) \<noteq> []"
  shows "map originalRotation (springs (secondaryMotion (snd (updateFromSpeed speed dt st)))) =
         map (\<lambda>sp. snd (Mixer_update dt (m1, quaternions (fst st))) (bone sp))
           (springs (secondaryMotion (snd st)))"
proof -
  have h: "hasSecondaryMotion (secondaryMotion (snd st))"
    using assms(3) by (simp add: hasSecondaryMotion_def)
  show ?thesis
    unfolding updateFromSpeed_phases [OF assms(1,2)] Let_def
    by (simp add: h secondaryUpdate_keeps_rest applyProceduralOffsets_controller
        onAnimationUpdate_def updateOriginalRotation_def o_def)
qed

lemma rigged_controller:
  "mixer riggedController = Some emptyMixer" "currentState riggedController = IDLE"
  "currentAction riggedController = None"
  "springs (secondaryMotion riggedController) = [spineSpring]"
  "previousPosition (secondaryMotion riggedController) = vec3 0 0 0"
  "previousVelocity (secondaryMotion riggedController) = vec3 0 0 0"
  "currentVelocity (secondaryMotion riggedController) = vec3 0 0 0"
  "currentAcceleration (secondaryMotion riggedController) = vec3 0 0 0"
  by (simp_all add: riggedController_def plainController_def stillMotion_def)

lemma spine_spring:
  "bone spineSpring = 0" "originalRotation spineSpring = identityQ"
  by (simp_all add: spineSpring_def newBoneSpring_def restModel_def)

lemma empty_mixer_update: "Mixer_update dt (emptyMixer, q) = (emptyMixer\<lparr>clock := dt\<rparr>, q)"
  by (simp add: Mixer_update_def Let_def emptyMixer_def)

lemma spring_at_rest:
  "BoneSpring_update (1/10) (Some (vec3 0 0 0)) (Some (vec3 0 0 0)) (spineSpring, q)
   = (spineSpring, q(0 := identityQ))"
  by (simp add: BoneSpring_update_def Let_def spring_consts vector_defs vlength_def
      applyDisplacement_def spineSpring_def newBoneSpring_def configOf_def orDefault_def
      restModel_def)

lemma still_motion:
  "updateCharacterMotion (1/10) (restModel\<lparr>rotationY := r, quaternions := q\<rparr>)
     (secondaryMotion riggedController) = secondaryMotion riggedController"
  by (simp add: updateCharacterMotion_def Let_def riggedController_def plainController_def
      stillMotion_def restModel_def spring_consts vector_defs)

lemma rigged_secondaryUpdate:
  assumes "secondaryMotion ac = secondaryMotion riggedController"
  shows "secondaryUpdate (1/10) (restModel\<lparr>rotationY := r, quaternions := q\<rparr>, ac) =
         (restModel\<lparr>rotationY := r, quaternions := q(0 := identityQ)\<rparr>, ac)"
proof -
  have "ac\<lparr>secondaryMotion := secondaryMotion riggedController\<rparr> = ac"
    using assms by (metis AnimationController.surjective AnimationController.update_convs(9))
  then show ?thesis
    by (simp add: secondaryUpdate_def SecondaryMotion_update_def Let_def assms still_motion
      rigged_controller spring_at_rest)
qed

lemma rigged_notify:
  "onAnimationUpdate (restModel\<lparr>rotationY := r\<rparr>) (secondaryMotion riggedController) =
   secondaryMotion riggedController"
  by (simp add: onAnimationUpdate_def updateOriginalRotation_def rigged_controller restModel_def
      spineSpring_def newBoneSpring_def stillMotion_def riggedController_def)

lemma rigged_offsets:
  assumes "bones ac = riggedBones" "skeleton ac" "previousRotation ac = 0"
  shows "applyProceduralOffsets 0 (1/10) (restModel\<lparr>rotationY := 1/10\<rparr>, ac) =
     (restModel\<lparr>rotationY := 1/10,
        quaternions := (\<lambda>b. identityQ)
          (0 := multiply identityQ (setFromEuler 0 (- 0.01) 0),
           1 := multiply identityQ (setFromEuler 0 (- 0.015) 0),
           2 := multiply identityQ (setFromEuler 0 0 0.008),
           3 := multiply identityQ (setFromEuler 0 0 (- 0.008)))\<rparr>,
      ac\<lparr>rotationVelocity := 1, previousRotation := 1/10\<rparr>)"
  by (simp add: applyProceduralOffsets_def Let_def assms riggedBones_def noBones_def rotateBone_def
      restModel_def anim_consts)

lemma turn_frame:
  "updateFromSpeed 0 (1/10) (restModel\<lparr>rotationY := 1/10\<rparr>, riggedController) =
     (restModel\<lparr>rotationY := 1/10,
        quaternions := (\<lambda>b. identityQ)
          (0 := identityQ,
           1 := multiply identityQ (setFromEuler 0 (- 0.015) 0),
           2 := multiply identityQ (setFromEuler 0 0 0.008),
           3 := multiply identityQ (setFromEuler 0 0 (- 0.008)))\<rparr>,
      riggedController\<lparr>mixer := Some (emptyMixer\<lparr>clock := 1/10\<rparr>),
        rotationVelocity := 1, previousRotation := 1/10\<rparr>)"
proof -
  let ?st = "(restModel\<lparr>rotationY := 1/10\<rparr>, riggedController)"
  have sel: "selected 0 (snd ?st) = riggedController"
    by (simp add: tgt0 rigged_controller)
  have m0: "mixer (snd ?st) = Some emptyMixer" by (simp add: rigged_controller)
  have m1: "mixer (selected 0 (snd ?st)) = Some emptyMixer"
    unfolding sel by (simp add: rigged_controller)
  have h: "hasSecondaryMotion (secondaryMotion riggedController)"
    by (simp add: hasSecondaryMotion_def rigged_controller)
  have q: "restModel\<lparr>rotationY := 1/10, quaternions := quaternions restModel\<rparr> = restModel\<lparr>rotationY := 1/10\<rparr>"
    by simp
  have b: "bones riggedController = riggedBones" "skeleton riggedController"
    "previousRotation riggedController = 0"
    by (simp_all add: riggedController_def plainController_def)
  show ?thesis
    unfolding updateFromSpeed_phases [OF m0 m1] sel
    apply (simp add: Let_def h empty_mixer_update rigged_notify)
    apply (simp add: rigged_offsets b)
    apply (subst rigged_secondaryUpdate)
     apply simp
    apply (simp add: fun_upd_twist)
    done
qed

lemma sin_smaller: "sin (0.005 :: real) \<noteq> 0"
proof -
  have "(0::real) < 0.005" "(0.005 :: real) < pi" using pi_ge_two by simp_all
  then have "0 < sin (0.005 :: real)" by (rule sin_gt_zero)
  then show ?thesis by simp
qed

text \<open>
  C4 fails on the code. \<open>updateFromSpeed\<close> takes the rest reference right after the
  mixer advance and before the procedural layer writes (lemma
  \<open>snapshot_before_offsets\<close>), not after both. In the rigged scene, turning at 1 rad/s:
  the procedural layer turns the spine by a rotation that is not the identity, the
  spring's rest reference is still the pose before that write, and the spring's pose
  application then sets the spine back to it, so that after the frame the spine shows
  no offset at all while the head, which has no spring, keeps its offset.
\<close>

theorem rest_taken_before_offsets:
  "map originalRotation (springs (secondaryMotion
      (snd (updateFromSpeed 0 (1/10) (restModel\<lparr>rotationY := 1/10\<rparr>, riggedController)))))
     = [identityQ] \<and>
   quaternions (fst (applyProceduralOffsets 0 (1/10)
      (restModel\<lparr>rotationY := 1/10\<rparr>, riggedController))) 0
     = multiply identityQ (setFromEuler 0 (- 0.01) 0) \<and>
   multiply identityQ (setFromEuler 0 (- 0.01) 0) \<noteq> identityQ \<and>
   quaternions (fst (updateFromSpeed 0 (1/10) (restModel\<lparr>rotationY := 1/10\<rparr>, riggedController))) 0
     = identityQ \<and>
   quaternions (fst (updateFromSpeed 0 (1/10) (restModel\<lparr>rotationY := 1/10\<rparr>, riggedController))) 1
     = multiply identityQ (setFromEuler 0 (- 0.015) 0)"
proof -
  have b: "bones riggedController = riggedBones" "skeleton riggedController"
    "previousRotation riggedController = 0"
    by (simp_all add: riggedController_def plainController_def)
  have "qy (multiply identityQ (setFromEuler 0 (- 0.01) 0)) = - sin 0.005"
    by (simp add: multiply_def identityQ_def setFromEuler_def quat_def Let_def)
  moreover have "qy identityQ = 0"
    by (simp add: identityQ_def quat_def)
  ultimately have ne: "multiply identityQ (setFromEuler 0 (- 0.01) 0) \<noteq> identityQ"
    using sin_smaller by (metis neg_equal_0_iff_equal)
  show ?thesis
    unfolding turn_frame rigged_offsets [OF b]
    using ne by (simp add: rigged_controller spine_spring)
qed

theorem rest_taken_before_offsets_witness:
  "quaternions (fst (updateFromSpeed 0 (1/10) (restModel\<lparr>rotationY := 1/10\<rparr>, riggedController))) 0
     \<noteq> quaternions (fst (applyProceduralOffsets 0 (1/10)
          (restModel\<lparr>rotationY := 1/10\<rparr>, riggedController))) 0"
  using rest_taken_before_offsets by metis

end
